theory Spec2Isabelle
  imports Main "HOL-Library.AList" "HOL-Library.Multiset"
begin

section \<open>The credential store (package repository)\<close>

text \<open>
  Go's \<open>error\<close> values of this program are formatted messages. The two messages that carry
  a username are kept apart; a wrapped driver error keeps its context and the driver's text.
  \<^item> \<open>AlreadyExists u\<close>: "proxy with username u already exists" (router)
  \<^item> \<open>NotFound u\<close>: "proxy with username u not found" (router and repository)
  \<^item> \<open>Driver msg\<close>: an error of \<open>database/sql\<close> or of the SQLite driver
  \<^item> \<open>Wrap ctx err\<close>: \<open>fmt.Errorf("ctx: %w", err)\<close>
\<close>

datatype error = AlreadyExists string | NotFound string | Driver string | Wrap string error

abbreviation DbError :: "string \<Rightarrow> string \<Rightarrow> error" where
  "DbError ctx msg \<equiv> Wrap ctx (Driver msg)"

text \<open>
  \<open>ProxyConfig\<close> (package router) and \<open>ProxyModel\<close> (package repository) are separate Go
  structs that share their first four fields; the model is written as a record extension
  so that both keep the field names of the source. Go's \<open>int64\<close> and \<open>int\<close> are read as
  unbounded integers: the identifiers and counters of this program only ever grow by one.
\<close>

record ProxyConfig =
  ID :: int
  Username :: string
  Password :: string
  Target :: string

record ProxyModel = ProxyConfig +
  FailedChecks :: int
  LastCheckAt :: string
  CreatedAt :: string

text \<open>
  One row of the table \<open>proxies\<close> as \<open>NewSQLiteRepository\<close> creates it. The column
  \<open>id\<close> is called \<open>id_col\<close> here.
\<close>

record row =
  id_col :: int
  username :: string
  password :: string
  target :: string
  failed_checks :: int
  last_check_at :: "string option"
  created_at :: string

text \<open>
  The database behind \<open>SQLiteRepository.db\<close>: the rows in insertion order, the
  AUTOINCREMENT sequence, the value of \<open>CURRENT_TIMESTAMP\<close>, and whether \<open>Close\<close> has been
  called (every later statement fails then).
\<close>

record database =
  proxies :: "row list"
  seq :: int
  clock :: string
  closed :: bool

text \<open>
  The interface \<open>IProxyRepository\<close>. The mutating methods return the store they leave
  behind; the two queries only read it.
\<close>

record 'db IProxyRepository =
  Create :: "string \<Rightarrow> string \<Rightarrow> string \<Rightarrow> 'db \<Rightarrow> (error + ProxyModel) \<times> 'db"
  Update :: "string \<Rightarrow> string \<Rightarrow> string \<Rightarrow> 'db \<Rightarrow> error option \<times> 'db"
  Delete :: "string \<Rightarrow> 'db \<Rightarrow> error option \<times> 'db"
  FindByUsername :: "string \<Rightarrow> 'db \<Rightarrow> error + ProxyModel option"
  FindAll :: "'db \<Rightarrow> error + ProxyModel list"
  IncrementFailedChecks :: "string \<Rightarrow> 'db \<Rightarrow> error option \<times> 'db"
  ResetFailedChecks :: "string \<Rightarrow> 'db \<Rightarrow> error option \<times> 'db"
  Close :: "'db \<Rightarrow> error option \<times> 'db"

definition db_closed :: string where
  "db_closed = ''sql: database is closed''"

text \<open>
  The counter column is an SQLite INTEGER and the field it is scanned into is a Go \<open>int\<close>,
  both 64 bits wide. When \<open>failed_checks + 1\<close> leaves that range SQLite stores a REAL
  instead, and \<open>Scan\<close> cannot convert a REAL of that size into the \<open>int\<close> field. A value of
  \<open>failed_checks\<close> outside the 64-bit range stands for such a REAL: every \<open>Scan\<close> of the
  row fails, and nothing else reads the value.
\<close>

definition in_int64 :: "int \<Rightarrow> bool" where
  "in_int64 x \<longleftrightarrow> - (2 ^ 63) \<le> x \<and> x < 2 ^ 63"

text \<open>
  A DATETIME column comes back from the driver as a time, which \<open>Scan\<close> writes into a
  string field in RFC 3339: for the text \<open>CURRENT_TIMESTAMP\<close> stores, the same date and
  time with \<open>T\<close> between them and \<open>Z\<close> at the end.
\<close>

definition rfc3339 :: "string \<Rightarrow> string" where
  "rfc3339 s = (if length s = 19 \<and> s ! 10 = CHR '' ''
                then take 10 s @ ''T'' @ drop 11 s @ ''Z'' else s)"

text \<open>
  What \<open>Scan\<close> fills in from the selected columns (\<open>last_check_at\<close> is never selected),
  and \<open>Scan\<close> itself, which fails on a counter it cannot convert.
\<close>

definition model_of :: "row \<Rightarrow> ProxyModel" where
  "model_of r = \<lparr>ID = id_col r, Username = username r, Password = password r, Target = target r,
     FailedChecks = failed_checks r, LastCheckAt = [], CreatedAt = rfc3339 (created_at r)\<rparr>"

definition scan :: "row \<Rightarrow> error + ProxyModel" where
  "scan r = (if in_int64 (failed_checks r) then Inr (model_of r)
             else Inl (Driver ''sql: Scan error on column failed_checks: converting float64 to int''))"

text \<open>The loop \<open>for rows.Next()\<close> of \<open>FindAll\<close>: the first row that cannot be scanned ends it.\<close>

fun scan_rows :: "row list \<Rightarrow> error + ProxyModel list" where
  "scan_rows [] = Inr []"
| "scan_rows (r # rs) =
    (case scan r of
       Inl err \<Rightarrow> Inl (Wrap ''failed to scan proxy'' err)
     | Inr model \<Rightarrow>
        (case scan_rows rs of
           Inl err \<Rightarrow> Inl err
         | Inr models \<Rightarrow> Inr (model # models)))"

text \<open>
  The methods of \<open>SQLiteRepository\<close>, each with the one statement it executes. What the
  database does with a statement is written out: a statement on a closed database fails;
  an INSERT or UPDATE that would break the UNIQUE constraint on \<open>username\<close> or the unique
  index on \<open>target\<close> fails and changes nothing; an INSERT takes the next value of the
  AUTOINCREMENT sequence and fails once the largest rowid has been used; an UPDATE or
  DELETE touches every row its WHERE clause selects, and \<open>rowsAffected == 0\<close> is the
  method's "not found".
\<close>

definition SQLite_Create ::
  "string \<Rightarrow> string \<Rightarrow> string \<Rightarrow> database \<Rightarrow> (error + ProxyModel) \<times> database" where
  "SQLite_Create u p t db =
    (if closed db then (Inl (DbError ''failed to insert proxy'' db_closed), db)
     else if \<not> in_int64 (seq db + 1)
       then (Inl (DbError ''failed to insert proxy'' ''database or disk is full''), db)
     else if t \<in> set (map target (proxies db))
       then (Inl (DbError ''failed to insert proxy'' ''UNIQUE constraint failed: proxies.target''), db)
     else if u \<in> set (map username (proxies db))
       then (Inl (DbError ''failed to insert proxy'' ''UNIQUE constraint failed: proxies.username''), db)
     else
       let i = seq db + 1;
           r = \<lparr>id_col = i, username = u, password = p, target = t, failed_checks = 0,
                last_check_at = None, created_at = clock db\<rparr>
       in (Inr \<lparr>ID = i, Username = u, Password = p, Target = t,
                FailedChecks = 0, LastCheckAt = [], CreatedAt = []\<rparr>,
           db\<lparr>proxies := proxies db @ [r], seq := i\<rparr>))"

definition SQLite_Update ::
  "string \<Rightarrow> string \<Rightarrow> string \<Rightarrow> database \<Rightarrow> error option \<times> database" where
  "SQLite_Update u p t db =
    (if closed db then (Some (DbError ''failed to update proxy'' db_closed), db)
     else if u \<in> set (map username (proxies db)) \<and>
             t \<in> set (map target (filter (\<lambda>r. username r \<noteq> u) (proxies db)))
       then (Some (DbError ''failed to update proxy'' ''UNIQUE constraint failed: proxies.target''), db)
     else if length (filter (\<lambda>r. username r = u) (proxies db)) = 0
       then (Some (NotFound u), db)
     else (None, db\<lparr>proxies :=
             map (\<lambda>r. if username r = u then r\<lparr>password := p, target := t\<rparr> else r) (proxies db)\<rparr>))"

definition SQLite_Delete :: "string \<Rightarrow> database \<Rightarrow> error option \<times> database" where
  "SQLite_Delete u db =
    (if closed db then (Some (DbError ''failed to delete proxy'' db_closed), db)
     else if length (filter (\<lambda>r. username r = u) (proxies db)) = 0
       then (Some (NotFound u), db)
     else (None, db\<lparr>proxies := filter (\<lambda>r. username r \<noteq> u) (proxies db)\<rparr>))"

definition SQLite_FindByUsername :: "string \<Rightarrow> database \<Rightarrow> error + ProxyModel option" where
  "SQLite_FindByUsername u db =
    (if closed db then Inl (DbError ''failed to query proxy'' db_closed)
     else
       (case find (\<lambda>r. username r = u) (proxies db) of
          None \<Rightarrow> Inr None
        | Some r \<Rightarrow>
           (case scan r of
              Inl err \<Rightarrow> Inl (Wrap ''failed to query proxy'' err)
            | Inr model \<Rightarrow> Inr (Some model))))"

definition SQLite_FindAll :: "database \<Rightarrow> error + ProxyModel list" where
  "SQLite_FindAll db =
    (if closed db then Inl (DbError ''failed to query proxies'' db_closed)
     else scan_rows (proxies db))"

definition SQLite_IncrementFailedChecks :: "string \<Rightarrow> database \<Rightarrow> error option \<times> database" where
  "SQLite_IncrementFailedChecks u db =
    (if closed db then (Some (DbError ''failed to increment failed checks'' db_closed), db)
     else if length (filter (\<lambda>r. username r = u) (proxies db)) = 0
       then (Some (NotFound u), db)
     else (None, db\<lparr>proxies :=
             map (\<lambda>r. if username r = u
                       then r\<lparr>failed_checks := failed_checks r + 1, last_check_at := Some (clock db)\<rparr>
                       else r) (proxies db)\<rparr>))"

definition SQLite_ResetFailedChecks :: "string \<Rightarrow> database \<Rightarrow> error option \<times> database" where
  "SQLite_ResetFailedChecks u db =
    (if closed db then (Some (DbError ''failed to reset failed checks'' db_closed), db)
     else if length (filter (\<lambda>r. username r = u) (proxies db)) = 0
       then (Some (NotFound u), db)
     else (None, db\<lparr>proxies :=
             map (\<lambda>r. if username r = u
                       then r\<lparr>failed_checks := 0, last_check_at := Some (clock db)\<rparr>
                       else r) (proxies db)\<rparr>))"

definition SQLite_Close :: "database \<Rightarrow> error option \<times> database" where
  "SQLite_Close db = (None, db\<lparr>closed := True\<rparr>)"

definition SQLiteRepository :: "database IProxyRepository" where
  "SQLiteRepository = \<lparr>Create = SQLite_Create, Update = SQLite_Update, Delete = SQLite_Delete,
     FindByUsername = SQLite_FindByUsername, FindAll = SQLite_FindAll,
     IncrementFailedChecks = SQLite_IncrementFailedChecks,
     ResetFailedChecks = SQLite_ResetFailedChecks, Close = SQLite_Close\<rparr>"

section \<open>The routing table (package router)\<close>

text \<open>
  \<open>ProxyRouter\<close>: the repository it was built with and the map \<open>cache\<close>. The mutex is not
  modelled: every method holds it from entry to return, so a method is one atomic step.
  The store is shared with the health checker and is passed separately.
\<close>

record 'db ProxyRouter =
  repo :: "'db IProxyRepository"
  cache :: "string \<rightharpoonup> ProxyConfig"

definition toConfig :: "ProxyModel \<Rightarrow> ProxyConfig" where
  "toConfig model = \<lparr>ID = ID model, Username = Username model,
     Password = Password model, Target = Target model\<rparr>"

fun loadModels :: "ProxyModel list \<Rightarrow> (string \<rightharpoonup> ProxyConfig) \<Rightarrow> (string \<rightharpoonup> ProxyConfig)" where
  "loadModels [] c = c"
| "loadModels (model # models) c = loadModels models (c(Username model \<mapsto> toConfig model))"

definition loadCache :: "'db ProxyRouter \<Rightarrow> 'db \<Rightarrow> error option \<times> 'db ProxyRouter" where
  "loadCache pr db =
    (case FindAll (repo pr) db of
       Inl err \<Rightarrow> (Some err, pr)
     | Inr models \<Rightarrow> (None, pr\<lparr>cache := loadModels models (cache pr)\<rparr>))"

definition NewProxyRouter :: "'db IProxyRepository \<Rightarrow> 'db \<Rightarrow> 'db ProxyRouter" where
  "NewProxyRouter rp db = snd (loadCache \<lparr>repo = rp, cache = Map.empty\<rparr> db)"

definition AddProxy ::
  "'db ProxyRouter \<Rightarrow> string \<Rightarrow> string \<Rightarrow> string \<Rightarrow> 'db \<Rightarrow> error option \<times> 'db ProxyRouter \<times> 'db" where
  "AddProxy pr u p t db =
    (case cache pr u of
       Some _ \<Rightarrow> (Some (AlreadyExists u), pr, db)
     | None \<Rightarrow>
        (case Create (repo pr) u p t db of
           (Inl err, db') \<Rightarrow> (Some err, pr, db')
         | (Inr model, db') \<Rightarrow> (None, pr\<lparr>cache := (cache pr)(u \<mapsto> toConfig model)\<rparr>, db')))"

definition UpdateProxy ::
  "'db ProxyRouter \<Rightarrow> string \<Rightarrow> string \<Rightarrow> string \<Rightarrow> 'db \<Rightarrow> error option \<times> 'db ProxyRouter \<times> 'db" where
  "UpdateProxy pr u p t db =
    (case cache pr u of
       None \<Rightarrow> (Some (NotFound u), pr, db)
     | Some config \<Rightarrow>
        (case Update (repo pr) u p t db of
           (Some err, db') \<Rightarrow> (Some err, pr, db')
         | (None, db') \<Rightarrow>
             (None, pr\<lparr>cache := (cache pr)(u \<mapsto> config\<lparr>Password := p, Target := t\<rparr>)\<rparr>, db')))"

text \<open>\<open>GetProxy\<close> returns \<open>(nil, false)\<close> or \<open>(config, true)\<close>; \<open>nil\<close> is \<open>None\<close>.\<close>

definition GetProxy :: "'db ProxyRouter \<Rightarrow> string \<Rightarrow> string \<Rightarrow> ProxyConfig option \<times> bool" where
  "GetProxy pr u p =
    (case cache pr u of
       None \<Rightarrow> (None, False)
     | Some config \<Rightarrow> if Password config \<noteq> p then (None, False) else (Some config, True))"

definition RemoveProxy ::
  "'db ProxyRouter \<Rightarrow> string \<Rightarrow> 'db \<Rightarrow> error option \<times> 'db ProxyRouter \<times> 'db" where
  "RemoveProxy pr u db =
    (case cache pr u of
       None \<Rightarrow> (Some (NotFound u), pr, db)
     | Some _ \<Rightarrow>
        (case Delete (repo pr) u db of
           (Some err, db') \<Rightarrow> (Some err, pr, db')
         | (None, db') \<Rightarrow> (None, pr\<lparr>cache := (cache pr)(u := None)\<rparr>, db')))"

text \<open>
  \<open>GetAllProxies\<close> copies every cached record. Go ranges over the map in no fixed order;
  the result is read as the set of copies.
\<close>

definition GetAllProxies :: "'db ProxyRouter \<Rightarrow> ProxyConfig set" where
  "GetAllProxies pr = ran (cache pr)"

definition ListProxies :: "'db ProxyRouter \<Rightarrow> (string \<rightharpoonup> string)" where
  "ListProxies pr = map_option Target \<circ> cache pr"

section \<open>The health checker (package checker)\<close>

text \<open>
  Modelled from the spec: the \<open>Checker\<close> section of \<open>config.Config\<close> is not among the
  source files. \<open>Check\<close> compares \<open>MaxFailedChecks\<close> with the \<open>int\<close> field \<open>FailedChecks\<close>,
  so it is an \<open>int\<close>; \<open>CheckURL\<close> is compared with the empty string.
\<close>

record CheckerConfig =
  MaxFailedChecks :: int
  CheckURL :: string

datatype probe_error =
  TcpFailed | InvalidProxyURL | CreateRequestFailed | HttpRequestFailed | UnexpectedStatus int

record CheckResult =
  Username_cr :: string
  Success :: bool
  Latency :: int
  Error :: "probe_error option"

text \<open>
  What one probe cycle meets outside the program: whether the TCP dial to a target
  succeeds, what the GET through a target yields, how long a probe took, and the order
  in which the probes' results arrive on \<open>resultChan\<close>.
\<close>

datatype fetch = BadProxyURL | BadRequest | DoError | HttpStatus int

record probe_env =
  checkTCPConnection :: "string \<Rightarrow> bool"
  client_Do :: "string \<Rightarrow> string \<Rightarrow> fetch"
  since :: "string \<Rightarrow> int"
  arrival :: "CheckResult list \<Rightarrow> CheckResult list"

definition checkSingleProxy :: "CheckerConfig \<Rightarrow> probe_env \<Rightarrow> ProxyModel \<Rightarrow> CheckResult" where
  "checkSingleProxy conf env proxy =
    (let result = \<lparr>Username_cr = Username proxy, Success = False, Latency = 0, Error = None\<rparr>;
         lat = since env (Target proxy)
     in if \<not> checkTCPConnection env (Target proxy)
        then result\<lparr>Error := Some TcpFailed, Latency := lat\<rparr>
        else
          let testURL = (if CheckURL conf = [] then ''http://www.google.com'' else CheckURL conf)
          in case client_Do env (Target proxy) testURL of
               BadProxyURL \<Rightarrow> result\<lparr>Error := Some InvalidProxyURL, Latency := lat\<rparr>
             | BadRequest \<Rightarrow> result\<lparr>Error := Some CreateRequestFailed, Latency := lat\<rparr>
             | DoError \<Rightarrow> result\<lparr>Error := Some HttpRequestFailed, Latency := lat\<rparr>
             | HttpStatus code \<Rightarrow>
                 if 200 \<le> code \<and> code < 400
                 then result\<lparr>Latency := lat, Success := True\<rparr>
                 else result\<lparr>Latency := lat, Error := Some (UnexpectedStatus code)\<rparr>)"

text \<open>The log: level, message and the fields given with it.\<close>

datatype level = INFO | WARN | ERROR

datatype field = Str string | Num int

type_synonym log_entry = "level \<times> string \<times> field list"

definition maxFailedChecks :: "CheckerConfig \<Rightarrow> int" where
  "maxFailedChecks conf = (if MaxFailedChecks conf = 0 then 5 else MaxFailedChecks conf)"

text \<open>
  The body of the loop \<open>for result := range resultChan\<close>, on the loop's variables: the
  store, the log, \<open>successCount\<close> and \<open>failedCount\<close>.
\<close>

definition processResult ::
  "'db IProxyRepository \<Rightarrow> CheckerConfig \<Rightarrow> 'db \<times> log_entry list \<times> int \<times> int \<Rightarrow> CheckResult
     \<Rightarrow> 'db \<times> log_entry list \<times> int \<times> int" where
  "processResult rp conf st result =
    (case st of (db, lg, successCount, failedCount) \<Rightarrow>
     let u = Username_cr result in
     if Success result then
       let lg1 = lg @ [(INFO, ''proxy check successful'', [Str u, Num (Latency result)])]
       in (case ResetFailedChecks rp u db of
             (Some err, db1) \<Rightarrow>
               (db1, lg1 @ [(ERROR, ''failed to reset failed checks'', [Str u])],
                successCount + 1, failedCount)
           | (None, db1) \<Rightarrow> (db1, lg1, successCount + 1, failedCount))
     else
       let lg1 = lg @ [(WARN, ''proxy check failed'', [Str u])]
       in (case IncrementFailedChecks rp u db of
             (Some err, db1) \<Rightarrow>
               (db1, lg1 @ [(ERROR, ''failed to increment failed checks'', [Str u])],
                successCount, failedCount + 1)
           | (None, db1) \<Rightarrow>
              (case FindByUsername rp u db1 of
                 Inl err \<Rightarrow> (db1, lg1, successCount, failedCount + 1)
               | Inr None \<Rightarrow> (db1, lg1, successCount, failedCount + 1)
               | Inr (Some proxy) \<Rightarrow>
                   let lg2 = lg1 @ [(WARN, ''proxy failed checks updated'',
                                     [Str u, Num (FailedChecks proxy)])]
                   in if FailedChecks proxy \<ge> maxFailedChecks conf then
                        let lg3 = lg2 @ [(ERROR, ''proxy exceeded max failed checks - deleting'',
                                   [Str u, Str (Target proxy), Num (FailedChecks proxy),
                                    Num (maxFailedChecks conf)])]
                        in (case Delete rp u db1 of
                              (Some err, db2) \<Rightarrow>
                                (db2, lg3 @ [(ERROR, ''failed to delete proxy'', [Str u])],
                                 successCount, failedCount + 1)
                            | (None, db2) \<Rightarrow>
                                (db2, lg3 @ [(INFO, ''proxy deleted successfully'', [Str u])],
                                 successCount, failedCount + 1))
                      else (db1, lg2, successCount, failedCount + 1))))"

text \<open>
  \<open>Check\<close>. The goroutines only probe; their results are handled one after the other by
  the loop above, in the order \<open>arrival\<close> gives. The result is the returned error, the
  store and the lines logged.
\<close>

definition Check ::
  "'db IProxyRepository \<Rightarrow> CheckerConfig \<Rightarrow> probe_env \<Rightarrow> 'db
     \<Rightarrow> error option \<times> 'db \<times> log_entry list" where
  "Check rp conf env db =
    (case FindAll rp db of
       Inl err \<Rightarrow> (Some (Wrap ''failed to fetch proxies'' err), db,
                    [(ERROR, ''failed to fetch proxies'', [])])
     | Inr proxs \<Rightarrow>
        if length proxs = 0 then (None, db, [(INFO, ''no proxies to check'', [])])
        else
          let lg0 = [(INFO, ''starting proxy check'', [Num (int (length proxs))])];
              results = arrival env (map (checkSingleProxy conf env) proxs)
          in (case foldl (processResult rp conf) (db, lg0, 0, 0) results of
                (db', lg, successCount, failedCount) \<Rightarrow>
                  (None, db', lg @ [(INFO, ''proxy check completed'',
                     [Num (int (length proxs)), Num successCount, Num failedCount])])))"

text \<open>
  Consecutive cycles, as \<open>StartPeriodicCheck\<close> runs them: one \<open>Check\<close> per tick, each with
  what the network does during that cycle. An error of \<open>Check\<close> is logged and the loop goes
  on. The result is the store and the log of all cycles.
\<close>

fun cycles ::
  "'db IProxyRepository \<Rightarrow> CheckerConfig \<Rightarrow> probe_env list \<Rightarrow> 'db \<Rightarrow> 'db \<times> log_entry list" where
  "cycles rp conf [] db = (db, [])"
| "cycles rp conf (env # envs) db =
    (case Check rp conf env db of
       (err, db', lg) \<Rightarrow>
         (case cycles rp conf envs db' of (db'', lg') \<Rightarrow> (db'', lg @ lg')))"

definition evictions :: "string \<Rightarrow> log_entry list \<Rightarrow> nat" where
  "evictions u lg = length (filter (\<lambda>e. e = (INFO, ''proxy deleted successfully'', [Str u])) lg)"

section \<open>The request dispatcher and the relay (package server)\<close>

subsection \<open>Library functions the handlers call\<close>

text \<open>
  \<open>strings.SplitN(s, sep, n)\<close> for a non-empty separator and \<open>n \<ge> 0\<close>: at most \<open>n\<close>
  pieces, the last one the unsplit rest. \<open>Cut\<close> finds the first occurrence of \<open>sep\<close>.
\<close>

fun Cut :: "string \<Rightarrow> string \<Rightarrow> (string \<times> string) option" where
  "Cut sep [] = (if sep = [] then Some ([], []) else None)"
| "Cut sep (c # s) =
    (if take (length sep) (c # s) = sep then Some ([], drop (length sep) (c # s))
     else map_option (\<lambda>(a, b). (c # a, b)) (Cut sep s))"

fun SplitN :: "string \<Rightarrow> string \<Rightarrow> nat \<Rightarrow> string list" where
  "SplitN s sep 0 = []"
| "SplitN s sep (Suc 0) = [s]"
| "SplitN s sep (Suc (Suc n)) =
    (case Cut sep s of
       None \<Rightarrow> [s]
     | Some (a, b) \<Rightarrow> a # SplitN b sep (Suc n))"

text \<open>
  \<open>http.Header\<close>, a map from a key to its values, as an association list with one entry
  per key; a \<open>range\<close> over it visits the entries in the list's order. Keys are taken in
  their canonical form.
\<close>

type_synonym Header = "(string \<times> string list) list"

definition Header_Get :: "Header \<Rightarrow> string \<Rightarrow> string" where
  "Header_Get h k = (case map_of h k of Some (v # vs) \<Rightarrow> v | _ \<Rightarrow> [])"

definition Header_Set :: "string \<Rightarrow> string \<Rightarrow> Header \<Rightarrow> Header" where
  "Header_Set k v h = AList.update k [v] h"

definition Header_Add :: "string \<Rightarrow> string \<Rightarrow> Header \<Rightarrow> Header" where
  "Header_Add k v h = AList.update k ((case map_of h k of Some vs \<Rightarrow> vs | None \<Rightarrow> []) @ [v]) h"

definition Header_Del :: "string \<Rightarrow> Header \<Rightarrow> Header" where
  "Header_Del k h = AList.delete k h"

text \<open>
  \<open>http.Request\<close> and \<open>http.Response\<close> share \<open>Header\<close> and \<open>Body\<close>; as for the proxy
  records above, the shared fields are a record that both extend.
\<close>

record Message =
  Header :: Header
  Body :: string

record Request = Message +
  Method :: string
  Host :: string
  RequestURI :: string

record Response = Message +
  Status :: string
  StatusCode :: int

text \<open>
  The \<open>http.ResponseWriter\<close> of \<open>net/http\<close>'s server, as far as the handlers use it:
  \<^item> \<open>header\<close>: the header map the handler changes through \<open>w.Header()\<close>;
  \<^item> \<open>interim\<close>: the status codes of the interim responses sent so far;
  \<^item> \<open>code\<close>: the status code of the response, once it is fixed;
  \<^item> \<open>sent_header\<close>: the copy of the header map the server takes when the status is
    fixed and writes the header block from; later changes of the map are not sent. The
    server's own part in the block is not modelled: it adds \<open>Date\<close> and the framing
    headers (Content-Length, Transfer-Encoding, Connection), replaces the handler's values
    of those where they conflict, and drops Content-Type under 304;
  \<^item> \<open>written\<close>: the body bytes the writer has accepted;
  \<^item> \<open>crashed\<close>: \<open>WriteHeader\<close> has panicked; no later statement of the handler runs.

  \<open>WriteHeader\<close> ignores a call after the status is fixed, panics on a code below 100 or
  above 999, sends a code from 100 to 199 other than 101 as an interim response and leaves
  the status open, and fixes the status otherwise. \<open>Write\<close> fixes the status at 200 when
  it is still open and accepts no body under a status from 100 to 199, 204 or 304. When
  the handler returns with the status still open the server fixes it at 200
  (\<open>finishRequest\<close>). The guard against more bytes than a declared Content-Length is left
  out: the only body written under a Content-Length is one \<open>http.ReadResponse\<close> has cut
  to it.
\<close>

record ResponseWriter =
  header :: Header
  interim :: "int list"
  code :: "int option"
  sent_header :: Header
  written :: string
  crashed :: bool

definition NewResponseWriter :: ResponseWriter where
  "NewResponseWriter = \<lparr>header = [], interim = [], code = None, sent_header = [],
     written = [], crashed = False\<rparr>"

definition WriteHeader :: "int \<Rightarrow> ResponseWriter \<Rightarrow> ResponseWriter" where
  "WriteHeader c w =
    (if crashed w \<or> code w \<noteq> None then w
     else if c < 100 \<or> c > 999 then w\<lparr>crashed := True\<rparr>
     else if c \<le> 199 \<and> c \<noteq> 101 then w\<lparr>interim := interim w @ [c]\<rparr>
     else w\<lparr>code := Some c, sent_header := header w\<rparr>)"

definition bodyAllowedForStatus :: "int \<Rightarrow> bool" where
  "bodyAllowedForStatus status \<longleftrightarrow> \<not> (100 \<le> status \<and> status \<le> 199) \<and> status \<noteq> 204 \<and> status \<noteq> 304"

definition Write :: "string \<Rightarrow> ResponseWriter \<Rightarrow> ResponseWriter" where
  "Write bs w =
    (if crashed w then w
     else
       (let w' = WriteHeader 200 w in
        case code w' of
          None \<Rightarrow> w'
        | Some status \<Rightarrow>
            if bs = [] \<or> \<not> bodyAllowedForStatus status then w'
            else w'\<lparr>written := written w' @ bs\<rparr>))"

definition io_Copy :: "string \<Rightarrow> ResponseWriter \<Rightarrow> ResponseWriter" where
  "io_Copy bs w = (if bs = [] then w else Write bs w)"

definition finishRequest :: "ResponseWriter \<Rightarrow> ResponseWriter" where
  "finishRequest w = (if crashed w then w else WriteHeader 200 w)"

text \<open>
  \<open>http.Error\<close> is the library's: it drops Content-Length, sets the two headers, writes
  the status and then the message with a newline.
\<close>

definition http_Error :: "ResponseWriter \<Rightarrow> string \<Rightarrow> int \<Rightarrow> ResponseWriter" where
  "http_Error w msg c =
    (let h = Header_Set ''X-Content-Type-Options'' ''nosniff''
               (Header_Set ''Content-Type'' ''text/plain; charset=utf-8''
                 (Header_Del ''Content-Length'' (header w)))
     in Write (msg @ [CHR 0x0A]) (WriteHeader c (w\<lparr>header := h\<rparr>)))"

definition CRLF :: string where
  "CRLF = [CHR 0x0D, CHR 0x0A]"

text \<open>
  What a handler meets outside the program. \<open>DialTimeout\<close> gives the error text when the
  dial to a target fails. \<open>exchange\<close> is the upstream's part of one exchange on the
  connection: given the target and what the handler writes (raw bytes, or a request that
  \<open>Request.Write\<close> serialises), the write fails, or \<open>http.ReadResponse\<close> fails, or it
  returns a response. \<open>Hijack\<close> is what taking over the client connection yields.
\<close>

datatype wire = Raw string | Serialized Request

datatype exchange = WriteFailed | ReadFailed | Reply Response

datatype hijack = NotHijacker | HijackFailed string | Hijacked

record net_env =
  DialTimeout :: "string \<Rightarrow> string option"
  exchange :: "string \<Rightarrow> wire \<Rightarrow> exchange"
  Hijack :: hijack

text \<open>
  What a handler has done when it is over: the response as the server finishes it, what
  was written to the upstream connection, whether the client connection was hijacked and
  the bytes written on it, whether the two \<open>io.Copy\<close> of the tunnel were started, and
  whether the handler panicked (the server then drops the connection).
\<close>

record outcome =
  rw :: ResponseWriter
  upstream :: "wire list"
  hijacked :: bool
  clientConn :: string
  spliced :: bool
  panicked :: bool

text \<open>A handler that returns, or panics in \<open>WriteHeader\<close>, without having hijacked.\<close>

definition respond :: "ResponseWriter \<Rightarrow> wire list \<Rightarrow> outcome" where
  "respond w ws = \<lparr>rw = finishRequest w, upstream = ws, hijacked = False, clientConn = [],
     spliced = False, panicked = crashed w\<rparr>"

subsection \<open>The handlers\<close>

text \<open>
  \<open>parseProxyAuth\<close>. \<open>base64.StdEncoding.DecodeString\<close> is the standard library's and is a
  parameter: \<open>None\<close> is its error.
\<close>

definition parseProxyAuth ::
  "(string \<Rightarrow> string option) \<Rightarrow> string \<Rightarrow> string \<times> string \<times> bool" where
  "parseProxyAuth DecodeString authHeader =
    (if authHeader = [] then ([], [], False)
     else
       let parts = SplitN authHeader '' '' 2 in
       if length parts \<noteq> 2 \<or> parts ! 0 \<noteq> ''Basic'' then ([], [], False)
       else
         case DecodeString (parts ! 1) of
           None \<Rightarrow> ([], [], False)
         | Some decoded \<Rightarrow>
             let credentials = SplitN decoded '':'' 2 in
             if length credentials \<noteq> 2 then ([], [], False)
             else (credentials ! 0, credentials ! 1, True))"

text \<open>The local \<open>connectReq\<close> of \<open>handleConnect\<close>, as a function of the request.\<close>

definition connectReq :: "Request \<Rightarrow> string" where
  "connectReq r = ''CONNECT '' @ Host r @ '' HTTP/1.1'' @ CRLF @ ''Host: '' @ Host r @ CRLF @ CRLF"

definition handleConnect :: "net_env \<Rightarrow> ResponseWriter \<Rightarrow> Request \<Rightarrow> ProxyConfig \<Rightarrow> outcome" where
  "handleConnect env w r config =
    (case DialTimeout env (Target config) of
       Some err \<Rightarrow> respond (http_Error w (''Cannot connect to proxy: '' @ err) 503) []
     | None \<Rightarrow>
        (case exchange env (Target config) (Raw (connectReq r)) of
           WriteFailed \<Rightarrow> respond (http_Error w ''Failed to send CONNECT'' 500) []
         | ReadFailed \<Rightarrow>
             respond (http_Error w ''Failed to read proxy response'' 500) [Raw (connectReq r)]
         | Reply resp \<Rightarrow>
             (if StatusCode resp \<noteq> 200
              then respond (http_Error w (''Proxy returned: '' @ Status resp) (StatusCode resp))
                     [Raw (connectReq r)]
              else
                (case Hijack env of
                   NotHijacker \<Rightarrow>
                     respond (http_Error w ''Hijacking not supported'' 500) [Raw (connectReq r)]
                 | HijackFailed err \<Rightarrow> respond (http_Error w err 503) [Raw (connectReq r)]
                 | Hijacked \<Rightarrow>
                     \<lparr>rw = w, upstream = [Raw (connectReq r)], hijacked = True,
                      clientConn = ''HTTP/1.1 200 Connection Established'' @ CRLF @ CRLF,
                      spliced = True, panicked = False\<rparr>))))"

definition copyHeader :: "Header \<Rightarrow> Header \<Rightarrow> Header" where
  "copyHeader src dst =
     foldl (\<lambda>h (key, values). foldl (\<lambda>h' value. Header_Add key value h') h values) dst src"

text \<open>
  The request after \<open>r.Header.Del("Proxy-Authorization")\<close> and
  \<open>r.Header.Del("Proxy-Connection")\<close>.
\<close>

definition delProxyHeaders :: "Request \<Rightarrow> Request" where
  "delProxyHeaders r =
     r\<lparr>Header := Header_Del ''Proxy-Connection'' (Header_Del ''Proxy-Authorization'' (Header r))\<rparr>"

definition handleHTTPRequest ::
  "net_env \<Rightarrow> ResponseWriter \<Rightarrow> Request \<Rightarrow> ProxyConfig \<Rightarrow> outcome" where
  "handleHTTPRequest env w r config =
    (case DialTimeout env (Target config) of
       Some err \<Rightarrow> respond (http_Error w (''Cannot connect to proxy: '' @ err) 503) []
     | None \<Rightarrow>
        (let r' = delProxyHeaders r
         in (case exchange env (Target config) (Serialized r') of
               WriteFailed \<Rightarrow> respond (http_Error w ''Failed to send request to proxy'' 500) []
             | ReadFailed \<Rightarrow>
                 respond (http_Error w ''Failed to read proxy response'' 500) [Serialized r']
             | Reply resp \<Rightarrow>
                 (let w1 = w\<lparr>header := copyHeader (Header resp) (header w)\<rparr>;
                      w2 = WriteHeader (StatusCode resp) w1
                  in respond (io_Copy (Body resp) w2) [Serialized r']))))"

definition challenge :: string where
  \<open>challenge = ''Basic realm="Proxy"''\<close>

text \<open>
  The header map of a fresh \<open>ResponseWriter\<close> after \<open>Proxy-Authenticate\<close> has been set and
  \<open>http.Error\<close> has added its two headers.
\<close>

definition auth_failure_header :: Header where
  "auth_failure_header =
     [(''Proxy-Authenticate'', [challenge]),
      (''Content-Type'', [''text/plain; charset=utf-8'']),
      (''X-Content-Type-Options'', [''nosniff''])]"

definition handleHTTP ::
  "(string \<Rightarrow> string option) \<Rightarrow> net_env \<Rightarrow> 'db ProxyRouter \<Rightarrow> ResponseWriter \<Rightarrow> Request \<Rightarrow> outcome" where
  "handleHTTP DecodeString env router w r =
    (case parseProxyAuth DecodeString (Header_Get (Header r) ''Proxy-Authorization'') of
       (user, pass, ok) \<Rightarrow>
         (if \<not> ok then
            respond (http_Error (w\<lparr>header := Header_Set ''Proxy-Authenticate'' challenge (header w)\<rparr>)
                       ''Proxy Authentication Required'' 407) []
          else
            (case GetProxy router user pass of
               (config, valid) \<Rightarrow>
                 (if \<not> valid then
                    respond (http_Error (w\<lparr>header := Header_Set ''Proxy-Authenticate'' challenge (header w)\<rparr>)
                               ''Invalid credentials'' 407) []
                  else
                    (case config of
                       None \<Rightarrow> \<lparr>rw = w, upstream = [], hijacked = False, clientConn = [],
                                 spliced = False, panicked = True\<rparr>
                     | Some c \<Rightarrow>
                         (if Method r = ''CONNECT'' then handleConnect env w r c
                          else handleHTTPRequest env w r c))))))"

subsection \<open>The tunnel after the splice has started\<close>

text \<open>
  After the hijack \<open>handleConnect\<close> starts \<open>io.Copy(targetConn, clientConn)\<close> in a goroutine
  of its own and runs \<open>io.Copy(clientConn, targetConn)\<close> itself; no statement waits for
  the goroutine. When its own copy returns the handler returns, and the deferred
  \<open>clientConn.Close()\<close> and \<open>targetConn.Close()\<close> run. The two events are the returns of the
  two copies, in the order the scheduler and the peers produce them.
\<close>

datatype tunnel_event = ClientToTargetDone | TargetToClientDone

record tunnel =
  goroutine_copying :: bool
  handler_copying :: bool
  handler_returned :: bool
  clientConn_closed :: bool
  targetConn_closed :: bool

definition splice :: tunnel where
  "splice = \<lparr>goroutine_copying = True, handler_copying = True, handler_returned = False,
     clientConn_closed = False, targetConn_closed = False\<rparr>"

fun tunnel_step :: "tunnel \<Rightarrow> tunnel_event \<Rightarrow> tunnel" where
  "tunnel_step t ClientToTargetDone = t\<lparr>goroutine_copying := False\<rparr>"
| "tunnel_step t TargetToClientDone =
    (if handler_copying t
     then t\<lparr>handler_copying := False, handler_returned := True,
            clientConn_closed := True, targetConn_closed := True\<rparr>
     else t)"

definition tunnel_run :: "tunnel_event list \<Rightarrow> tunnel" where
  "tunnel_run evs = foldl tunnel_step splice evs"

section \<open>The application (package app) and the store row by row\<close>

text \<open>
  \<open>app.Run\<close> opens one repository and hands it to both the router
  (\<open>router.NewProxyRouter(repo)\<close>) and the checker (\<open>checker.New(conf, l, repo)\<close>): the
  checker holds the repository and nothing of the router. The running application is the
  store and the router built from it at start; a tick of the periodic check runs \<open>Check\<close>
  on the store.
\<close>

record app =
  store :: database
  router :: "database ProxyRouter"

definition Run_start :: "database \<Rightarrow> app" where
  "Run_start d = \<lparr>store = d, router = NewProxyRouter SQLiteRepository d\<rparr>"

definition tick :: "CheckerConfig \<Rightarrow> probe_env \<Rightarrow> app \<Rightarrow> app" where
  "tick conf env a = a\<lparr>store := fst (snd (Check SQLiteRepository conf env (store a)))\<rparr>"

definition ticks :: "CheckerConfig \<Rightarrow> probe_env list \<Rightarrow> app \<Rightarrow> app" where
  "ticks conf envs a = a\<lparr>store := fst (cycles SQLiteRepository conf envs (store a))\<rparr>"

text \<open>
  The row a username selects, and what the three statements of a probe's handling do to
  the table: the UPDATE of \<open>ResetFailedChecks\<close>, the UPDATE of \<open>IncrementFailedChecks\<close>
  and the DELETE.
\<close>

definition row_of :: "string \<Rightarrow> database \<Rightarrow> row option" where
  "row_of u db = find (\<lambda>r. username r = u) (proxies db)"

definition bump :: "string \<Rightarrow> row \<Rightarrow> row" where
  "bump now r = r\<lparr>failed_checks := failed_checks r + 1, last_check_at := Some now\<rparr>"

definition reset :: "string \<Rightarrow> row \<Rightarrow> row" where
  "reset now r = r\<lparr>failed_checks := 0, last_check_at := Some now\<rparr>"

definition after_success :: "string \<Rightarrow> database \<Rightarrow> database" where
  "after_success u db =
     db\<lparr>proxies := map (\<lambda>r. if username r = u then reset (clock db) r else r) (proxies db)\<rparr>"

definition after_failure :: "string \<Rightarrow> database \<Rightarrow> database" where
  "after_failure u db =
     db\<lparr>proxies := map (\<lambda>r. if username r = u then bump (clock db) r else r) (proxies db)\<rparr>"

definition after_eviction :: "string \<Rightarrow> database \<Rightarrow> database" where
  "after_eviction u db = db\<lparr>proxies := filter (\<lambda>r. username r \<noteq> u) (proxies db)\<rparr>"

text \<open>
  What one cycle does to the row of a probed record, given whether its probe succeeded,
  and how many evictions of it the cycle logs.
\<close>

definition cycle_row :: "CheckerConfig \<Rightarrow> bool \<Rightarrow> string \<Rightarrow> row \<Rightarrow> row option" where
  "cycle_row conf ok now r =
     (if ok then Some (reset now r)
      else if in_int64 (failed_checks r + 1) \<and> maxFailedChecks conf \<le> failed_checks r + 1 then None
      else Some (bump now r))"

definition evicts :: "CheckerConfig \<Rightarrow> bool \<Rightarrow> row option \<Rightarrow> nat" where
  "evicts conf ok ro =
     (case ro of None \<Rightarrow> 0
      | Some r \<Rightarrow>
          if \<not> ok \<and> in_int64 (failed_checks r + 1) \<and> maxFailedChecks conf \<le> failed_checks r + 1
          then 1 else 0)"

text \<open>
  A store whose every counter can be scanned, and one whose every counter can also take
  one more increment and still be scanned.
\<close>

definition readable :: "database \<Rightarrow> bool" where
  "readable db \<longleftrightarrow> (\<forall>r \<in> set (proxies db). in_int64 (failed_checks r))"

definition headroom :: "database \<Rightarrow> bool" where
  "headroom db \<longleftrightarrow> (\<forall>r \<in> set (proxies db). in_int64 (failed_checks r) \<and> in_int64 (failed_checks r + 1))"

definition probe_ok :: "CheckerConfig \<Rightarrow> probe_env \<Rightarrow> row \<Rightarrow> bool" where
  "probe_ok conf env r = Success (checkSingleProxy conf env (model_of r))"

section \<open>A decoder for the examples\<close>

text \<open>
  Standard base64 with padding, as \<open>base64.StdEncoding.DecodeString\<close> decodes it (carriage
  returns and line feeds are skipped). The properties of \<open>parseProxyAuth\<close> hold for every
  decoder; this one is what the concrete requests below are decoded with.
\<close>

definition encodeStd :: string where
  "encodeStd = ''ABCDEFGHIJKLMNOPQRSTUVWXYZabcdefghijklmnopqrstuvwxyz0123456789+/''"

fun index_in :: "char \<Rightarrow> string \<Rightarrow> nat option" where
  "index_in c [] = None"
| "index_in c (x # xs) = (if c = x then Some 0 else map_option Suc (index_in c xs))"

definition byte :: "nat \<Rightarrow> char" where
  "byte n = Char (odd n) (odd (n div 2)) (odd (n div 4)) (odd (n div 8))
                 (odd (n div 16)) (odd (n div 32)) (odd (n div 64)) (odd (n div 128))"

fun decode_quanta :: "string \<Rightarrow> string option" where
  "decode_quanta (a # b # c # d # rest) =
     (case (index_in a encodeStd, index_in b encodeStd) of
        (Some x, Some y) \<Rightarrow>
          if rest = [] \<and> c = CHR ''='' \<and> d = CHR ''=''
          then Some [byte ((x * 64 + y) div 16)]
          else (case index_in c encodeStd of
                  None \<Rightarrow> None
                | Some z \<Rightarrow>
                    if rest = [] \<and> d = CHR ''=''
                    then Some [byte ((x * 4096 + y * 64 + z) div 1024),
                               byte ((x * 4096 + y * 64 + z) div 4 mod 256)]
                    else (case index_in d encodeStd of
                            None \<Rightarrow> None
                          | Some w \<Rightarrow>
                              map_option
                                (\<lambda>t. [byte ((x * 262144 + y * 4096 + z * 64 + w) div 65536),
                                       byte ((x * 262144 + y * 4096 + z * 64 + w) div 256 mod 256),
                                       byte ((x * 262144 + y * 4096 + z * 64 + w) mod 256)] @ t)
                                (decode_quanta rest)))
      | _ \<Rightarrow> None)"
| "decode_quanta [] = Some []"
| "decode_quanta [a] = None"
| "decode_quanta [a, b] = None"
| "decode_quanta [a, b, c] = None"

definition StdEncoding_DecodeString :: "string \<Rightarrow> string option" where
  "StdEncoding_DecodeString s =
     decode_quanta (filter (\<lambda>c. c \<noteq> CHR 0x0D \<and> c \<noteq> CHR 0x0A) s)"

section \<open>Concrete instances\<close>

text \<open>
  The registration of the spec's scenario: \<open>alice\<close> / \<open>secret\<close> / \<open>203.0.113.5:3128\<close>, as the
  only row of the store, and the router that \<open>NewProxyRouter\<close> builds from that store.
\<close>

definition alice_row :: row where
  "alice_row = \<lparr>id_col = 1, username = ''alice'', password = ''secret'',
     target = ''203.0.113.5:3128'', failed_checks = 0, last_check_at = None,
     created_at = ''2025-01-01 00:00:00''\<rparr>"

definition alice_config :: ProxyConfig where
  "alice_config = \<lparr>ID = 1, Username = ''alice'', Password = ''secret'',
     Target = ''203.0.113.5:3128''\<rparr>"

definition example_db :: database where
  "example_db = \<lparr>proxies = [alice_row], seq = 1, clock = ''2025-06-01 12:00:00'', closed = False\<rparr>"

definition example_router :: "database ProxyRouter" where
  "example_router = \<lparr>repo = SQLiteRepository, cache = [''alice'' \<mapsto> alice_config]\<rparr>"

definition closed_db :: database where
  "closed_db = example_db\<lparr>closed := True\<rparr>"

text \<open>
  A store with three failures already counted for \<open>alice\<close> and a second record; the default checker
  configuration (nothing set) and one with a threshold of 4; a network in which no target
  answers, and one in which every target answers 200 and results arrive in reverse order.
\<close>

definition bob_row :: row where
  "bob_row = \<lparr>id_col = 2, username = ''bob'', password = ''hunter2'',
     target = ''198.51.100.7:8080'', failed_checks = 1, last_check_at = None,
     created_at = ''2025-02-01 00:00:00''\<rparr>"

definition failing_db :: database where
  "failing_db = example_db\<lparr>proxies := [alice_row\<lparr>failed_checks := 3\<rparr>, bob_row], seq := 2\<rparr>"

definition default_conf :: CheckerConfig where
  "default_conf = \<lparr>MaxFailedChecks = 0, CheckURL = []\<rparr>"

definition conf4 :: CheckerConfig where
  "conf4 = \<lparr>MaxFailedChecks = 4, CheckURL = ''http://example.org/''\<rparr>"

definition env_down :: probe_env where
  "env_down = \<lparr>checkTCPConnection = (\<lambda>t. False), client_Do = (\<lambda>t url. DoError),
     since = (\<lambda>t. 5000), arrival = (\<lambda>rs. rs)\<rparr>"

definition env_up :: probe_env where
  "env_up = \<lparr>checkTCPConnection = (\<lambda>t. True), client_Do = (\<lambda>t url. HttpStatus 200),
     since = (\<lambda>t. 120), arrival = rev\<rparr>"

text \<open>
  Requests and upstreams: the scenario's GET without credentials, the same with a
  \<open>Proxy-Authorization\<close> value, a CONNECT, four upstream replies, a network in which the
  dial is refused and one in which the upstream answers with a given reply.
\<close>

definition get_request :: Request where
  "get_request = \<lparr>Header = [(''Accept'', [''*/*'']), (''Proxy-Connection'', [''Keep-Alive''])],
     Body = [], Method = ''GET'', Host = ''example.org'', RequestURI = ''http://example.org/''\<rparr>"

definition with_auth :: "string \<Rightarrow> Request \<Rightarrow> Request" where
  "with_auth v r = r\<lparr>Header := (''Proxy-Authorization'', [v]) # Header r\<rparr>"


definition connect_request :: Request where
  "connect_request = \<lparr>Header = [(''Proxy-Authorization'', [''Basic YWxpY2U6c2VjcmV0''])],
     Body = [], Method = ''CONNECT'', Host = ''example.org:443'', RequestURI = ''example.org:443''\<rparr>"

definition upstream_reply :: Response where
  "upstream_reply = \<lparr>Header = [(''Set-Cookie'', [''a=1'', ''b=2'', ''a=1'']), (''Content-Length'', [''5''])],
     Body = ''hello'', Status = ''404 Not Found'', StatusCode = 404\<rparr>"

definition no_content :: Response where
  "no_content = \<lparr>Header = [], Body = [], Status = ''204 No Content'', StatusCode = 204\<rparr>"

definition established :: Response where
  "established = \<lparr>Header = [], Body = [], Status = ''200 Connection established'', StatusCode = 200\<rparr>"


definition net_refused :: net_env where
  "net_refused = \<lparr>DialTimeout = (\<lambda>t. Some ''dial tcp: connection refused''),
     exchange = (\<lambda>t q. WriteFailed), Hijack = Hijacked\<rparr>"

definition net_replies :: "Response \<Rightarrow> net_env" where
  "net_replies resp = \<lparr>DialTimeout = (\<lambda>t. None), exchange = (\<lambda>t q. Reply resp), Hijack = Hijacked\<rparr>"

section \<open>The routing table: lookup and mutation\<close>

lemma example_router_loaded: "NewProxyRouter SQLiteRepository example_db = example_router"
  by (simp add: NewProxyRouter_def loadCache_def SQLiteRepository_def SQLite_FindAll_def
      example_db_def example_router_def alice_row_def alice_config_def scan_def model_of_def
      in_int64_def toConfig_def)

text \<open>
  C4. \<open>GetProxy\<close> returns \<open>(config, true)\<close> exactly when the username is in the table and the
  stored password equals the given one, and \<open>config\<close> is the record stored under that
  username. In every other case, unknown username or wrong password alike, it returns
  the one value \<open>(nil, false)\<close>.
\<close>

theorem GetProxy_matches_stored_password:
  "(GetProxy pr u p = (Some c, True) \<longleftrightarrow> (cache pr u = Some c \<and> Password c = p))
   \<and> (GetProxy pr u p = (None, False)
        \<longleftrightarrow> (cache pr u = None \<or> (\<exists>c'. cache pr u = Some c' \<and> Password c' \<noteq> p)))
   \<and> (GetProxy pr u p = (None, False) \<or> (\<exists>c'. GetProxy pr u p = (Some c', True)))"
  by (auto simp: GetProxy_def split: option.splits)

theorem GetProxy_matches_stored_password_witness:
  "GetProxy example_router ''alice'' ''secret'' = (Some alice_config, True)
   \<and> GetProxy example_router ''alice'' ''wrong'' = (None, False)
   \<and> GetProxy example_router ''bob'' ''secret'' = (None, False)"
  using GetProxy_matches_stored_password [of example_router "''alice''" "''secret''" alice_config]
    GetProxy_matches_stored_password [of example_router "''alice''" "''wrong''" alice_config]
    GetProxy_matches_stored_password [of example_router "''bob''" "''secret''" alice_config]
  by (simp add: example_router_def alice_config_def)

lemma AddProxy_cases:
  "AddProxy pr u p t db = (r, pr', db') \<Longrightarrow>
     (cache pr u \<noteq> None \<and> r = Some (AlreadyExists u) \<and> pr' = pr \<and> db' = db)
   \<or> (cache pr u = None \<and> (\<exists>err. Create (repo pr) u p t db = (Inl err, db') \<and> r = Some err \<and> pr' = pr))
   \<or> (cache pr u = None \<and> (\<exists>model. Create (repo pr) u p t db = (Inr model, db') \<and> r = None
          \<and> pr' = pr\<lparr>cache := (cache pr)(u \<mapsto> toConfig model)\<rparr>))"
  by (auto simp: AddProxy_def split: option.splits sum.splits prod.splits)

lemma UpdateProxy_cases:
  "UpdateProxy pr u p t db = (r, pr', db') \<Longrightarrow>
     (cache pr u = None \<and> r = Some (NotFound u) \<and> pr' = pr \<and> db' = db)
   \<or> (\<exists>config err. cache pr u = Some config \<and> Update (repo pr) u p t db = (Some err, db') \<and> r = Some err \<and> pr' = pr)
   \<or> (\<exists>config. cache pr u = Some config \<and> Update (repo pr) u p t db = (None, db') \<and> r = None
          \<and> pr' = pr\<lparr>cache := (cache pr)(u \<mapsto> config\<lparr>Password := p, Target := t\<rparr>)\<rparr>)"
  by (auto simp: UpdateProxy_def split: option.splits sum.splits prod.splits)

lemma RemoveProxy_cases:
  "RemoveProxy pr u db = (r, pr', db') \<Longrightarrow>
     (cache pr u = None \<and> r = Some (NotFound u) \<and> pr' = pr \<and> db' = db)
   \<or> (\<exists>config err. cache pr u = Some config \<and> Delete (repo pr) u db = (Some err, db') \<and> r = Some err \<and> pr' = pr)
   \<or> (\<exists>config. cache pr u = Some config \<and> Delete (repo pr) u db = (None, db') \<and> r = None
          \<and> pr' = pr\<lparr>cache := (cache pr)(u := None)\<rparr>)"
  by (auto simp: RemoveProxy_def split: option.splits sum.splits prod.splits)

text \<open>
  C5. For every repository behind the router: \<open>AddProxy\<close> of a username that is in the
  table fails with AlreadyExists and leaves table and store as they were; \<open>UpdateProxy\<close>
  and \<open>RemoveProxy\<close> of a username that is not in the table fail with NotFound and leave
  both as they were. Whenever a mutation returns an error the router is unchanged, and
  whenever it succeeds the store's own call succeeded on the store as it was before, the
  table being changed at that one username from what the store returned.
\<close>

theorem mutations_store_first:
  "(cache pr u \<noteq> None \<longrightarrow> AddProxy pr u p t db = (Some (AlreadyExists u), pr, db))
   \<and> (cache pr u = None \<longrightarrow>
         UpdateProxy pr u p t db = (Some (NotFound u), pr, db)
         \<and> RemoveProxy pr u db = (Some (NotFound u), pr, db))
   \<and> (\<forall>err pr' db'. AddProxy pr u p t db = (Some err, pr', db') \<longrightarrow> pr' = pr)
   \<and> (\<forall>err pr' db'. UpdateProxy pr u p t db = (Some err, pr', db') \<longrightarrow> pr' = pr)
   \<and> (\<forall>err pr' db'. RemoveProxy pr u db = (Some err, pr', db') \<longrightarrow> pr' = pr)
   \<and> (\<forall>pr' db'. AddProxy pr u p t db = (None, pr', db') \<longrightarrow>
         (\<exists>model. Create (repo pr) u p t db = (Inr model, db')
            \<and> pr' = pr\<lparr>cache := (cache pr)(u \<mapsto> toConfig model)\<rparr>))
   \<and> (\<forall>pr' db'. UpdateProxy pr u p t db = (None, pr', db') \<longrightarrow>
         (\<exists>config. cache pr u = Some config \<and> Update (repo pr) u p t db = (None, db')
            \<and> pr' = pr\<lparr>cache := (cache pr)(u \<mapsto> config\<lparr>Password := p, Target := t\<rparr>)\<rparr>))
   \<and> (\<forall>pr' db'. RemoveProxy pr u db = (None, pr', db') \<longrightarrow>
         (Delete (repo pr) u db = (None, db') \<and> pr' = pr\<lparr>cache := (cache pr)(u := None)\<rparr>))"
  apply (intro conjI allI impI)
  subgoal by (auto simp: AddProxy_def split: option.splits)
  subgoal by (auto simp: UpdateProxy_def split: option.splits)
  subgoal by (auto simp: RemoveProxy_def split: option.splits)
  subgoal by (drule AddProxy_cases) auto
  subgoal by (drule UpdateProxy_cases) auto
  subgoal by (drule RemoveProxy_cases) auto
  subgoal by (drule AddProxy_cases) auto
  subgoal by (drule UpdateProxy_cases) auto
  subgoal by (drule RemoveProxy_cases) auto
  subgoal by (drule RemoveProxy_cases) auto
  done

theorem mutations_store_first_witness:
  "AddProxy example_router ''alice'' ''pw'' ''198.51.100.7:8080'' example_db
     = (Some (AlreadyExists ''alice''), example_router, example_db)
   \<and> UpdateProxy example_router ''bob'' ''pw'' ''198.51.100.7:8080'' example_db
     = (Some (NotFound ''bob''), example_router, example_db)
   \<and> RemoveProxy example_router ''bob'' example_db
     = (Some (NotFound ''bob''), example_router, example_db)
   \<and> AddProxy example_router ''bob'' ''pw'' ''203.0.113.5:3128'' example_db
     = (Some (DbError ''failed to insert proxy'' ''UNIQUE constraint failed: proxies.target''),
        example_router, example_db)
   \<and> fst (AddProxy example_router ''bob'' ''pw'' ''198.51.100.7:8080'' example_db) = None
   \<and> fst (UpdateProxy example_router ''alice'' ''pw'' ''198.51.100.7:8080'' example_db) = None
   \<and> fst (RemoveProxy example_router ''alice'' example_db) = None"
proof -
  have c: "cache example_router ''alice'' \<noteq> None" "cache example_router ''bob'' = None"
    by (simp_all add: example_router_def)
  have 1: "AddProxy example_router ''alice'' ''pw'' ''198.51.100.7:8080'' example_db
     = (Some (AlreadyExists ''alice''), example_router, example_db)"
    using mutations_store_first [of example_router "''alice''" "''pw''" "''198.51.100.7:8080''" example_db] c
    by blast
  have 2: "UpdateProxy example_router ''bob'' ''pw'' ''198.51.100.7:8080'' example_db
     = (Some (NotFound ''bob''), example_router, example_db)
   \<and> RemoveProxy example_router ''bob'' example_db
     = (Some (NotFound ''bob''), example_router, example_db)"
    using mutations_store_first [of example_router "''bob''" "''pw''" "''198.51.100.7:8080''" example_db] c
    by blast
  have 3: "AddProxy example_router ''bob'' ''pw'' ''203.0.113.5:3128'' example_db
     = (Some (DbError ''failed to insert proxy'' ''UNIQUE constraint failed: proxies.target''),
        example_router, example_db)"
    by (simp add: AddProxy_def example_router_def SQLiteRepository_def SQLite_Create_def
        example_db_def alice_row_def in_int64_def)
  have 4: "fst (AddProxy example_router ''bob'' ''pw'' ''198.51.100.7:8080'' example_db) = None"
    by (simp add: AddProxy_def example_router_def SQLiteRepository_def SQLite_Create_def
        example_db_def alice_row_def in_int64_def Let_def)
  have 5: "fst (UpdateProxy example_router ''alice'' ''pw'' ''198.51.100.7:8080'' example_db) = None"
    by (simp add: UpdateProxy_def example_router_def SQLiteRepository_def SQLite_Update_def
        example_db_def alice_row_def Let_def)
  have 6: "fst (RemoveProxy example_router ''alice'' example_db) = None"
    by (simp add: RemoveProxy_def example_router_def SQLiteRepository_def SQLite_Delete_def
        example_db_def alice_row_def Let_def)
  show ?thesis using 1 2 3 4 5 6 by simp
qed

text \<open>
  C10. When \<open>FindAll\<close> fails while the table is built, \<open>loadCache\<close> returns that error and
  \<open>NewProxyRouter\<close> drops it: the router it returns has an empty table, every lookup on it
  finds nothing, and a record is found again once an \<open>AddProxy\<close> has succeeded.
\<close>

theorem NewProxyRouter_discards_load_error:
  assumes "FindAll rp db = Inl err"
  shows "fst (loadCache \<lparr>repo = rp, cache = Map.empty\<rparr> db) = Some err
     \<and> NewProxyRouter rp db = \<lparr>repo = rp, cache = Map.empty\<rparr>
     \<and> (\<forall>u p. GetProxy (NewProxyRouter rp db) u p = (None, False))
     \<and> GetAllProxies (NewProxyRouter rp db) = {}
     \<and> (\<forall>u p t db1 pr' db2. AddProxy (NewProxyRouter rp db) u p t db1 = (None, pr', db2) \<longrightarrow>
          (\<exists>model. Create rp u p t db1 = (Inr model, db2)
             \<and> GetProxy pr' u (Password model) = (Some (toConfig model), True)))"
proof -
  have n: "NewProxyRouter rp db = \<lparr>repo = rp, cache = Map.empty\<rparr>"
    using assms by (simp add: NewProxyRouter_def loadCache_def)
  have a: "\<exists>model. Create rp u p t db1 = (Inr model, db2)
             \<and> GetProxy pr' u (Password model) = (Some (toConfig model), True)"
    if "AddProxy (NewProxyRouter rp db) u p t db1 = (None, pr', db2)" for u p t db1 pr' db2
    using AddProxy_cases[OF that] by (auto simp: n GetProxy_def toConfig_def)
  show ?thesis
    using assms a by (simp add: n loadCache_def GetProxy_def GetAllProxies_def)
qed

theorem NewProxyRouter_discards_load_error_witness:
  "SQLite_FindAll closed_db = Inl (DbError ''failed to query proxies'' db_closed)
   \<and> NewProxyRouter SQLiteRepository closed_db = \<lparr>repo = SQLiteRepository, cache = Map.empty\<rparr>
   \<and> GetProxy (NewProxyRouter SQLiteRepository closed_db) ''alice'' ''secret'' = (None, False)"
proof -
  have g: "SQLite_FindAll closed_db = Inl (DbError ''failed to query proxies'' db_closed)"
    by (simp add: SQLite_FindAll_def closed_db_def)
  have f: "FindAll SQLiteRepository closed_db = Inl (DbError ''failed to query proxies'' db_closed)"
    by (simp add: SQLiteRepository_def g)
  have "NewProxyRouter SQLiteRepository closed_db = \<lparr>repo = SQLiteRepository, cache = Map.empty\<rparr>
    \<and> GetProxy (NewProxyRouter SQLiteRepository closed_db) ''alice'' ''secret'' = (None, False)"
    using NewProxyRouter_discards_load_error [OF f] by blast
  with g show ?thesis by blast
qed

section \<open>The health checker: counters and eviction\<close>

text \<open>
  The UNIQUE constraint on \<open>username\<close>: every statement of the repository leaves the
  usernames of the table distinct.
\<close>

lemma SQLite_keeps_usernames_unique:
  assumes "distinct (map username (proxies db))"
  shows "distinct (map username (proxies (snd (SQLite_Create u p t db))))"
    and "distinct (map username (proxies (snd (SQLite_Update u p t db))))"
    and "distinct (map username (proxies (snd (SQLite_Delete u db))))"
    and "distinct (map username (proxies (snd (SQLite_IncrementFailedChecks u db))))"
    and "distinct (map username (proxies (snd (SQLite_ResetFailedChecks u db))))"
  using assms
  by (auto simp: SQLite_Create_def SQLite_Update_def SQLite_Delete_def
      SQLite_IncrementFailedChecks_def SQLite_ResetFailedChecks_def Let_def
      comp_def if_distrib [of username] distinct_map_filter cong: if_cong)

lemma find_map_same_key:
  assumes "\<And>r. username (g r) = username r"
  shows "find (\<lambda>r. username r = v) (map (\<lambda>r. if username r = u then g r else r) rows)
       = (if v = u then map_option g (find (\<lambda>r. username r = u) rows)
          else find (\<lambda>r. username r = v) rows)"
  using assms by (induction rows) auto

lemma find_filter_other:
  "find (\<lambda>r. username r = v) (filter (\<lambda>r. username r \<noteq> u) rows)
     = (if v = u then None else find (\<lambda>r. username r = v) rows)"
  by (induction rows) auto

lemma no_match_iff: "(filter P rows = []) \<longleftrightarrow> find P rows = None"
  by (induction rows) auto

lemma usernames_map_same_key:
  assumes "\<And>r. username (g r) = username r"
  shows "map username (map (\<lambda>r. if username r = u then g r else r) rows) = map username rows"
  using assms by (induction rows) auto

lemma Increment_row_of:
  assumes "\<not> closed db"
  shows "SQLite_IncrementFailedChecks u db =
     (case row_of u db of None \<Rightarrow> (Some (NotFound u), db)
      | Some r \<Rightarrow> (None, db\<lparr>proxies := map (\<lambda>r. if username r = u
                       then r\<lparr>failed_checks := failed_checks r + 1, last_check_at := Some (clock db)\<rparr>
                       else r) (proxies db)\<rparr>))"
  using assms by (auto simp: SQLite_IncrementFailedChecks_def row_of_def no_match_iff split: option.splits)

lemma Reset_row_of:
  assumes "\<not> closed db"
  shows "SQLite_ResetFailedChecks u db =
     (case row_of u db of None \<Rightarrow> (Some (NotFound u), db)
      | Some r \<Rightarrow> (None, db\<lparr>proxies := map (\<lambda>r. if username r = u
                       then r\<lparr>failed_checks := 0, last_check_at := Some (clock db)\<rparr>
                       else r) (proxies db)\<rparr>))"
  using assms by (auto simp: SQLite_ResetFailedChecks_def row_of_def no_match_iff split: option.splits)

lemma Delete_row_of:
  assumes "\<not> closed db"
  shows "SQLite_Delete u db =
     (case row_of u db of None \<Rightarrow> (Some (NotFound u), db)
      | Some r \<Rightarrow> (None, db\<lparr>proxies := filter (\<lambda>r. username r \<noteq> u) (proxies db)\<rparr>))"
  using assms by (auto simp: SQLite_Delete_def row_of_def no_match_iff split: option.splits)

lemma Find_row_of:
  "\<not> closed db \<Longrightarrow>
   SQLite_FindByUsername u db =
     (case row_of u db of
        None \<Rightarrow> Inr None
      | Some r \<Rightarrow> if in_int64 (failed_checks r) then Inr (Some (model_of r))
                  else Inl (Wrap ''failed to query proxy''
                         (Driver ''sql: Scan error on column failed_checks: converting float64 to int'')))"
  by (simp add: SQLite_FindByUsername_def row_of_def scan_def split: option.splits)

lemma scan_rows_readable:
  "\<forall>r \<in> set rows. in_int64 (failed_checks r) \<Longrightarrow> scan_rows rows = Inr (map model_of rows)"
  by (induction rows) (simp_all add: scan_def)

lemma scan_rows_unreadable:
  "scan_rows rows = Inr ms \<Longrightarrow> \<forall>r \<in> set rows. in_int64 (failed_checks r)"
  by (induction rows arbitrary: ms) (auto simp: scan_def split: sum.splits if_splits)

lemma scan_rows_usernames:
  "scan_rows rows = Inr ms \<Longrightarrow> map Username ms = map username rows"
  by (induction rows arbitrary: ms) (auto simp: scan_def model_of_def split: sum.splits if_splits)

lemma row_of_bumped:
  "row_of v (db\<lparr>proxies := map (\<lambda>r. if username r = u then bump now r else r) (proxies db)\<rparr>)
     = (if v = u then map_option (bump now) (row_of u db) else row_of v db)"
  unfolding row_of_def by (simp add: find_map_same_key bump_def)

lemma row_of_reset:
  "row_of v (db\<lparr>proxies := map (\<lambda>r. if username r = u then reset now r else r) (proxies db)\<rparr>)
     = (if v = u then map_option (reset now) (row_of u db) else row_of v db)"
  unfolding row_of_def by (simp add: find_map_same_key reset_def)

lemma row_of_deleted:
  "row_of v (db\<lparr>proxies := filter (\<lambda>r. username r \<noteq> u) (proxies db)\<rparr>)
     = (if v = u then None else row_of v db)"
  unfolding row_of_def by (simp add: find_filter_other)

lemma processResult_success:
  assumes "\<not> closed db" "Success res"
  shows "processResult SQLiteRepository conf (db, lg, s, f) res =
    (case row_of (Username_cr res) db of
       None \<Rightarrow> (db, lg @ [(INFO, ''proxy check successful'', [Str (Username_cr res), Num (Latency res)]),
                          (ERROR, ''failed to reset failed checks'', [Str (Username_cr res)])], s + 1, f)
     | Some r \<Rightarrow> (after_success (Username_cr res) db,
                   lg @ [(INFO, ''proxy check successful'', [Str (Username_cr res), Num (Latency res)])],
                   s + 1, f))"
  using assms
  by (simp add: processResult_def SQLiteRepository_def Reset_row_of after_success_def reset_def Let_def
      split: option.splits)

lemma processResult_failure:
  assumes "\<not> closed db" "\<not> Success res"
  shows "processResult SQLiteRepository conf (db, lg, s, f) res =
    (let u = Username_cr res; lg1 = lg @ [(WARN, ''proxy check failed'', [Str u])] in
     case row_of u db of
       None \<Rightarrow> (db, lg1 @ [(ERROR, ''failed to increment failed checks'', [Str u])], s, f + 1)
     | Some r \<Rightarrow>
         if \<not> in_int64 (failed_checks r + 1) then (after_failure u db, lg1, s, f + 1)
         else
           let lg2 = lg1 @ [(WARN, ''proxy failed checks updated'', [Str u, Num (failed_checks r + 1)])]
           in if failed_checks r + 1 \<ge> maxFailedChecks conf
              then (after_eviction u (after_failure u db),
                    lg2 @ [(ERROR, ''proxy exceeded max failed checks - deleting'',
                              [Str u, Str (target r), Num (failed_checks r + 1), Num (maxFailedChecks conf)]),
                           (INFO, ''proxy deleted successfully'', [Str u])], s, f + 1)
              else (after_failure u db, lg2, s, f + 1))"
proof (cases "row_of (Username_cr res) db")
  case None
  then show ?thesis using assms
    by (simp add: processResult_def SQLiteRepository_def Increment_row_of Let_def)
next
  case (Some r)
  let ?u = "Username_cr res"
  have inc: "SQLite_IncrementFailedChecks ?u db = (None, after_failure ?u db)"
    using assms Some by (simp add: Increment_row_of after_failure_def bump_def)
  have nc: "\<not> closed (after_failure ?u db)" using assms by (simp add: after_failure_def)
  have ro: "row_of ?u (after_failure ?u db) = Some (bump (clock db) r)"
    using Some by (simp add: after_failure_def row_of_bumped)
  have fb: "failed_checks (bump (clock db) r) = failed_checks r + 1" by (simp add: bump_def)
  have fnd: "SQLite_FindByUsername ?u (after_failure ?u db) =
      (if in_int64 (failed_checks r + 1) then Inr (Some (model_of (bump (clock db) r)))
       else Inl (Wrap ''failed to query proxy''
              (Driver ''sql: Scan error on column failed_checks: converting float64 to int'')))"
    using nc ro by (simp add: Find_row_of fb)
  have del: "SQLite_Delete ?u (after_failure ?u db) = (None, after_eviction ?u (after_failure ?u db))"
    using nc ro by (simp add: Delete_row_of after_eviction_def)
  have fc: "FailedChecks (model_of (bump (clock db) r)) = failed_checks r + 1"
       "Target (model_of (bump (clock db) r)) = target r"
    by (simp_all add: model_of_def bump_def)
  show ?thesis using assms Some
    by (simp add: processResult_def SQLiteRepository_def inc fnd del fc Let_def)
qed

lemma after_success_simps:
  "closed (after_success u db) = closed db" "clock (after_success u db) = clock db"
  "map username (proxies (after_success u db)) = map username (proxies db)"
  "row_of v (after_success u db)
     = (if v = u then map_option (reset (clock db)) (row_of u db) else row_of v db)"
  by (simp_all add: after_success_def row_of_reset usernames_map_same_key reset_def)

lemma after_failure_simps:
  "closed (after_failure u db) = closed db" "clock (after_failure u db) = clock db"
  "map username (proxies (after_failure u db)) = map username (proxies db)"
  "row_of v (after_failure u db)
     = (if v = u then map_option (bump (clock db)) (row_of u db) else row_of v db)"
  by (simp_all add: after_failure_def row_of_bumped usernames_map_same_key bump_def)

lemma after_eviction_simps:
  "closed (after_eviction u db) = closed db" "clock (after_eviction u db) = clock db"
  "distinct (map username (proxies db)) \<Longrightarrow> distinct (map username (proxies (after_eviction u db)))"
  "row_of v (after_eviction u db) = (if v = u then None else row_of v db)"
  by (simp_all add: after_eviction_def row_of_deleted distinct_map_filter)

lemma evictions_append: "evictions u (xs @ ys) = evictions u xs + evictions u ys"
  by (simp add: evictions_def)

lemma evictions_simps:
  "evictions u [] = 0"
  "evictions u ((ERROR, m, fs) # lg) = evictions u lg"
  "evictions u ((WARN, m, fs) # lg) = evictions u lg"
  "m \<noteq> ''proxy deleted successfully'' \<Longrightarrow> evictions u ((INFO, m, fs) # lg) = evictions u lg"
  "evictions u ((INFO, ''proxy deleted successfully'', [Str v]) # lg)
     = (if v = u then 1 else 0) + evictions u lg"
  by (auto simp: evictions_def)

lemma processResult_effect:
  assumes nc: "\<not> closed db"
    and pr: "processResult SQLiteRepository conf (db, lg, s, f) res = (db', lg', s', f')"
  shows "\<not> closed db' \<and> clock db' = clock db
    \<and> (distinct (map username (proxies db)) \<longrightarrow> distinct (map username (proxies db')))
    \<and> (\<forall>v. v \<noteq> Username_cr res \<longrightarrow> row_of v db' = row_of v db \<and> evictions v lg' = evictions v lg)
    \<and> row_of (Username_cr res) db'
           = Option.bind (row_of (Username_cr res) db) (cycle_row conf (Success res) (clock db))
    \<and> evictions (Username_cr res) lg'
           = evictions (Username_cr res) lg + evicts conf (Success res) (row_of (Username_cr res) db)"
proof (cases "Success res")
  case True
  note eq = pr [unfolded processResult_success [OF nc True]]
  show ?thesis
  proof (cases "row_of (Username_cr res) db")
    case None
    with eq nc True show ?thesis
      by (auto simp: evictions_append evictions_simps evicts_def)
  next
    case (Some r)
    with eq nc True show ?thesis
      by (auto simp: after_success_simps cycle_row_def evictions_append evictions_simps evicts_def)
  qed
next
  case False
  note eq = pr [unfolded processResult_failure [OF nc False] Let_def]
  show ?thesis
  proof (cases "row_of (Username_cr res) db")
    case None
    with eq nc False show ?thesis
      by (auto simp: evictions_append evictions_simps evicts_def)
  next
    case (Some r)
    show ?thesis
    proof (cases "in_int64 (failed_checks r + 1)")
      case I: True
      show ?thesis
      proof (cases "maxFailedChecks conf \<le> failed_checks r + 1")
        case True
        with eq nc False Some I show ?thesis
          by (auto simp: after_failure_simps after_eviction_simps cycle_row_def
              evictions_append evictions_simps evicts_def)
      next
        case F: False
        with eq nc False Some I show ?thesis
          by (auto simp: after_failure_simps cycle_row_def
              evictions_append evictions_simps evicts_def)
      qed
    next
      case O: False
      with eq nc False Some show ?thesis
        by (auto simp: after_failure_simps cycle_row_def
            evictions_append evictions_simps evicts_def)
    qed
  qed
qed

lemma results_effect:
  assumes "\<not> closed db"
    and "foldl (processResult SQLiteRepository conf) (db, lg, s, f) rs = (db', lg', s', f')"
  shows "\<not> closed db' \<and> clock db' = clock db
    \<and> (distinct (map username (proxies db)) \<longrightarrow> distinct (map username (proxies db')))
    \<and> (\<forall>v. v \<notin> Username_cr ` set rs \<longrightarrow> row_of v db' = row_of v db \<and> evictions v lg' = evictions v lg)
    \<and> (distinct (map Username_cr rs) \<longrightarrow>
         (\<forall>res \<in> set rs.
            row_of (Username_cr res) db'
              = Option.bind (row_of (Username_cr res) db) (cycle_row conf (Success res) (clock db))
            \<and> evictions (Username_cr res) lg'
              = evictions (Username_cr res) lg + evicts conf (Success res) (row_of (Username_cr res) db)))"
  using assms
proof (induction rs arbitrary: db lg s f)
  case Nil
  then show ?case by simp
next
  case (Cons x xs)
  obtain db1 lg1 s1 f1 where
    st: "processResult SQLiteRepository conf (db, lg, s, f) x = (db1, lg1, s1, f1)"
    by (metis prod_cases4)
  note e1 = processResult_effect [OF Cons.prems(1) st]
  have rest: "foldl (processResult SQLiteRepository conf) (db1, lg1, s1, f1) xs = (db', lg', s', f')"
    using Cons.prems(2) st by simp
  have nc1: "\<not> closed db1" using e1 by simp
  note ih = Cons.IH [OF nc1 rest]
  have a: "\<not> closed db' \<and> clock db' = clock db
    \<and> (distinct (map username (proxies db)) \<longrightarrow> distinct (map username (proxies db')))"
    using e1 ih by simp
  have b: "row_of v db' = row_of v db \<and> evictions v lg' = evictions v lg"
    if "v \<notin> Username_cr ` set (x # xs)" for v
  proof -
    from that have "v \<noteq> Username_cr x" "v \<notin> Username_cr ` set xs" by auto
    with e1 ih show ?thesis by simp
  qed
  have c: "row_of (Username_cr res) db'
              = Option.bind (row_of (Username_cr res) db) (cycle_row conf (Success res) (clock db))
            \<and> evictions (Username_cr res) lg'
              = evictions (Username_cr res) lg + evicts conf (Success res) (row_of (Username_cr res) db)"
    if d: "distinct (map Username_cr (x # xs))" and m: "res \<in> set (x # xs)" for res
  proof (cases "res = x")
    case True
    from d have "Username_cr x \<notin> Username_cr ` set xs" by simp
    with ih have "row_of (Username_cr x) db' = row_of (Username_cr x) db1"
      "evictions (Username_cr x) lg' = evictions (Username_cr x) lg1" by simp_all
    with e1 True show ?thesis by simp
  next
    case False
    with m have mx: "res \<in> set xs" by simp
    with d have ne: "Username_cr res \<noteq> Username_cr x" by (metis distinct.simps(2) image_eqI list.simps(9) set_map)
    from d have dx: "distinct (map Username_cr xs)" by simp
    from e1 ne have "row_of (Username_cr res) db1 = row_of (Username_cr res) db"
      "evictions (Username_cr res) lg1 = evictions (Username_cr res) lg" "clock db1 = clock db"
      by simp_all
    with ih dx mx show ?thesis by simp
  qed
  show ?case using a b c by blast
qed

lemma checkSingleProxy_Username [simp]:
  "Username_cr (checkSingleProxy conf env m) = Username m"
  by (simp add: checkSingleProxy_def Let_def split: fetch.splits)

lemma checkSingleProxy_by_Target:
  "Target m = Target m' \<Longrightarrow>
     Success (checkSingleProxy conf env m) = Success (checkSingleProxy conf env m')"
  by (simp add: checkSingleProxy_def Let_def split: fetch.splits)

lemma row_of_Some: "row_of u db = Some r \<Longrightarrow> r \<in> set (proxies db) \<and> username r = u"
  unfolding row_of_def by (auto simp: find_Some_iff in_set_conv_nth)

lemma row_of_None: "row_of u db = None \<longleftrightarrow> u \<notin> username ` set (proxies db)"
  unfolding row_of_def by (auto simp: find_None_iff)

lemma row_of_unique:
  "distinct (map username rows) \<Longrightarrow> r \<in> set rows \<Longrightarrow> find (\<lambda>x. username x = username r) rows = Some r"
  by (induction rows) (auto simp: rev_image_eqI)

lemma Check_effect:
  assumes nc: "\<not> closed db"
    and dist: "distinct (map username (proxies db))"
    and rd: "readable db"
    and perm: "\<And>xs. mset (arrival env xs) = mset xs"
    and chk: "Check SQLiteRepository conf env db = (err, db', lg)"
  shows "err = None \<and> \<not> closed db' \<and> clock db' = clock db
    \<and> distinct (map username (proxies db'))
    \<and> row_of u db' = Option.bind (row_of u db) (\<lambda>r. cycle_row conf (probe_ok conf env r) (clock db) r)
    \<and> evictions u lg = (case row_of u db of None \<Rightarrow> 0
                          | Some r \<Rightarrow> evicts conf (probe_ok conf env r) (Some r))"
proof (cases "proxies db = []")
  case True
  then have "row_of u db = None" by (simp add: row_of_def)
  with True nc dist chk show ?thesis
    by (auto simp: Check_def SQLiteRepository_def SQLite_FindAll_def evictions_simps)
next
  case False
  define lg0 :: "log_entry list"
    where "lg0 = [(INFO, ''starting proxy check'', [Num (int (length (map model_of (proxies db))))])]"
  define rs where "rs = arrival env (map (checkSingleProxy conf env) (map model_of (proxies db)))"
  obtain db1 lg1 s1 f1 where
    fo: "foldl (processResult SQLiteRepository conf) (db, lg0, 0, 0) rs = (db1, lg1, s1, f1)"
    by (metis prod_cases4)
  have fa: "FindAll SQLiteRepository db = Inr (map model_of (proxies db))"
    using nc rd by (simp add: SQLiteRepository_def SQLite_FindAll_def scan_rows_readable readable_def)
  have chk': "Check SQLiteRepository conf env db =
     (case foldl (processResult SQLiteRepository conf) (db, lg0, 0, 0) rs of
        (db', lg, successCount, failedCount) \<Rightarrow>
          (None, db', lg @ [(INFO, ''proxy check completed'',
             [Num (int (length (map model_of (proxies db)))), Num successCount, Num failedCount])]))"
    unfolding Check_def fa Let_def lg0_def rs_def using False by simp
  have res: "err = None" "db' = db1"
    "lg = lg1 @ [(INFO, ''proxy check completed'',
                   [Num (int (length (map model_of (proxies db)))), Num s1, Num f1])]"
    using chk unfolding chk' fo by simp_all
  note eff = results_effect [OF nc fo]
  have ms: "mset rs = mset (map (checkSingleProxy conf env) (map model_of (proxies db)))"
    unfolding rs_def by (rule perm)
  have names: "mset (map Username_cr rs) = mset (map username (proxies db))"
  proof -
    have "mset (map Username_cr rs) = image_mset Username_cr (mset rs)" by simp
    also have "\<dots> = mset (map Username_cr (map (checkSingleProxy conf env) (map model_of (proxies db))))"
      unfolding ms by (simp add: multiset.map_comp)
    also have "map Username_cr (map (checkSingleProxy conf env) (map model_of (proxies db)))
        = map username (proxies db)"
      by (simp add: model_of_def comp_def)
    finally show ?thesis .
  qed
  have drs: "distinct (map Username_cr rs)"
    using names dist by (metis mset_eq_imp_distinct_iff)
  have setrs: "set rs = checkSingleProxy conf env ` model_of ` set (proxies db)"
    using ms by (metis mset_eq_setD set_map)
  have ev_lg: "evictions u lg = evictions u lg1"
    by (simp add: res evictions_append evictions_simps)
  have ev0: "evictions u lg0 = 0"
    by (simp add: lg0_def evictions_simps)
  have main: "row_of u db1 = Option.bind (row_of u db) (\<lambda>r. cycle_row conf (probe_ok conf env r) (clock db) r)
    \<and> evictions u lg1 = (case row_of u db of None \<Rightarrow> 0
                          | Some r \<Rightarrow> evicts conf (probe_ok conf env r) (Some r))"
  proof (cases "row_of u db")
    case None
    then have "u \<notin> username ` set (proxies db)" by (simp add: row_of_None)
    then have "u \<notin> Username_cr ` set rs"
      unfolding setrs by (auto simp: model_of_def)
    with eff None ev0 show ?thesis by simp
  next
    case (Some r)
    then have r: "r \<in> set (proxies db)" "username r = u" using row_of_Some by blast+
    let ?res = "checkSingleProxy conf env (model_of r)"
    have m: "?res \<in> set rs" unfolding setrs using r by blast
    have un: "Username_cr ?res = u" using r by (simp add: model_of_def)
    from eff drs m have
      "row_of (Username_cr ?res) db1
         = Option.bind (row_of (Username_cr ?res) db) (cycle_row conf (Success ?res) (clock db))
       \<and> evictions (Username_cr ?res) lg1
         = evictions (Username_cr ?res) lg0 + evicts conf (Success ?res) (row_of (Username_cr ?res) db)"
      by blast
    then show ?thesis
      unfolding un using Some ev0 by (simp add: probe_ok_def)
  qed
  show ?thesis using eff dist res(1,2) main ev_lg by simp
qed

lemma Check_unreadable:
  assumes "\<not> closed db" "\<not> readable db"
  shows "\<exists>err. Check SQLiteRepository conf env db
           = (Some err, db, [(ERROR, ''failed to fetch proxies'', [])])"
proof -
  have "\<exists>err. scan_rows (proxies db) = Inl err"
  proof (cases "scan_rows (proxies db)")
    case (Inl e) then show ?thesis by blast
  next
    case (Inr ms)
    from scan_rows_unreadable [OF this] assms(2) show ?thesis by (simp add: readable_def)
  qed
  then show ?thesis using assms(1)
    by (auto simp: Check_def SQLiteRepository_def SQLite_FindAll_def)
qed

lemma Check_fst_snd:
  "Check rp conf env db = (fst (Check rp conf env db), fst (snd (Check rp conf env db)),
      snd (snd (Check rp conf env db)))"
  by simp

lemma Check_absent:
  assumes nc: "\<not> closed db"
    and dist: "distinct (map username (proxies db))"
    and perm: "\<And>xs. mset (arrival env xs) = mset xs"
    and ab: "row_of u db = None"
  shows "\<not> closed (fst (snd (Check SQLiteRepository conf env db)))
    \<and> distinct (map username (proxies (fst (snd (Check SQLiteRepository conf env db)))))
    \<and> row_of u (fst (snd (Check SQLiteRepository conf env db))) = None
    \<and> evictions u (snd (snd (Check SQLiteRepository conf env db))) = 0"
proof (cases "readable db")
  case True
  from Check_effect [OF nc dist True perm Check_fst_snd, of conf u] ab
  show ?thesis by simp
next
  case False
  from Check_unreadable [OF nc False, of conf env] obtain err where
    "Check SQLiteRepository conf env db = (Some err, db, [(ERROR, ''failed to fetch proxies'', [])])"
    by blast
  then show ?thesis using nc dist ab by (simp add: evictions_simps)
qed

lemma cycles_Cons:
  "cycles rp conf (env # envs) db
     = (fst (cycles rp conf envs (fst (snd (Check rp conf env db)))),
        snd (snd (Check rp conf env db)) @ snd (cycles rp conf envs (fst (snd (Check rp conf env db)))))"
  by (simp split: prod.splits)

lemma cycles_absent:
  assumes "\<not> closed db" "distinct (map username (proxies db))"
    and "\<forall>env \<in> set envs. \<forall>xs. mset (arrival env xs) = mset xs"
    and "row_of u db = None"
  shows "\<not> closed (fst (cycles SQLiteRepository conf envs db))
    \<and> distinct (map username (proxies (fst (cycles SQLiteRepository conf envs db))))
    \<and> row_of u (fst (cycles SQLiteRepository conf envs db)) = None
    \<and> evictions u (snd (cycles SQLiteRepository conf envs db)) = 0"
  using assms
proof (induction envs arbitrary: db)
  case Nil
  then show ?case by (simp add: evictions_simps)
next
  case (Cons env envs)
  have p: "\<And>xs. mset (arrival env xs) = mset xs" using Cons.prems(3) by simp
  have pe: "\<forall>env \<in> set envs. \<forall>xs. mset (arrival env xs) = mset xs" using Cons.prems(3) by simp
  note e = Check_absent [OF Cons.prems(1,2) p Cons.prems(4), of conf]
  from e have e1: "\<not> closed (fst (snd (Check SQLiteRepository conf env db)))"
    "distinct (map username (proxies (fst (snd (Check SQLiteRepository conf env db)))))"
    "row_of u (fst (snd (Check SQLiteRepository conf env db))) = None" by simp_all
  note ih = Cons.IH [OF e1(1,2) pe e1(3)]
  show ?case unfolding cycles_Cons using ih e by (simp add: evictions_append)
qed

lemma Check_headroom:
  assumes nc: "\<not> closed db"
    and dist: "distinct (map username (proxies db))"
    and hr: "headroom db"
    and mx: "in_int64 (MaxFailedChecks conf)"
    and perm: "\<And>xs. mset (arrival env xs) = mset xs"
  shows "headroom (fst (snd (Check SQLiteRepository conf env db)))"
proof -
  let ?db' = "fst (snd (Check SQLiteRepository conf env db))"
  have rd: "readable db" using hr by (simp add: headroom_def readable_def)
  note e = Check_effect [OF nc dist rd perm Check_fst_snd, of conf]
  have M: "maxFailedChecks conf < 2 ^ 63"
    using mx by (simp add: maxFailedChecks_def in_int64_def)
  have "in_int64 (failed_checks r') \<and> in_int64 (failed_checks r' + 1)" if m: "r' \<in> set (proxies ?db')" for r'
  proof -
    have d': "distinct (map username (proxies ?db'))" using e [of "username r'"] by simp
    have "row_of (username r') ?db' = Some r'"
      unfolding row_of_def using row_of_unique [OF d' m] .
    with e [of "username r'"] obtain r where
      r: "row_of (username r') db = Some r"
      and c: "cycle_row conf (probe_ok conf env r) (clock db) r = Some r'"
      by (cases "row_of (username r') db") auto
    from r have "r \<in> set (proxies db)" using row_of_Some by blast
    with hr have b: "in_int64 (failed_checks r)" "in_int64 (failed_checks r + 1)"
      by (simp_all add: headroom_def)
    show ?thesis
      using c b M
      by (auto simp: cycle_row_def reset_def bump_def in_int64_def split: if_splits)
  qed
  then show ?thesis by (simp add: headroom_def)
qed

lemma cycles_failing:
  assumes "\<not> closed db" "distinct (map username (proxies db))"
    and "headroom db" and "in_int64 (MaxFailedChecks conf)"
    and "\<forall>env \<in> set envs. \<forall>xs. mset (arrival env xs) = mset xs"
    and "row_of u db = Some r0"
    and "\<forall>env \<in> set envs. \<forall>r. target r = target r0 \<longrightarrow> \<not> probe_ok conf env r"
  shows "\<not> closed (fst (cycles SQLiteRepository conf envs db))
    \<and> distinct (map username (proxies (fst (cycles SQLiteRepository conf envs db))))
    \<and> (if envs = [] \<or> failed_checks r0 + int (length envs) < maxFailedChecks conf
        then (\<exists>r. row_of u (fst (cycles SQLiteRepository conf envs db)) = Some r
                 \<and> failed_checks r = failed_checks r0 + int (length envs) \<and> target r = target r0)
             \<and> evictions u (snd (cycles SQLiteRepository conf envs db)) = 0
        else row_of u (fst (cycles SQLiteRepository conf envs db)) = None
             \<and> evictions u (snd (cycles SQLiteRepository conf envs db)) = 1)"
  using assms
proof (induction envs arbitrary: db r0)
  case Nil
  then show ?case by (simp add: evictions_simps)
next
  case (Cons env envs)
  let ?db1 = "fst (snd (Check SQLiteRepository conf env db))"
  let ?lg1 = "snd (snd (Check SQLiteRepository conf env db))"
  have p: "\<And>xs. mset (arrival env xs) = mset xs" using Cons.prems(5) by simp
  have pe: "\<forall>env \<in> set envs. \<forall>xs. mset (arrival env xs) = mset xs" using Cons.prems(5) by simp
  have f0: "\<not> probe_ok conf env r0" using Cons.prems(7) by simp
  have rd: "readable db" using Cons.prems(3) by (simp add: headroom_def readable_def)
  have "r0 \<in> set (proxies db)" using Cons.prems(6) row_of_Some by blast
  then have i1: "in_int64 (failed_checks r0 + 1)" using Cons.prems(3) by (simp add: headroom_def)
  note e = Check_effect [OF Cons.prems(1,2) rd p Check_fst_snd, of conf u]
  note h1 = Check_headroom [OF Cons.prems(1,2,3,4) p]
  from e have s1: "\<not> closed ?db1" "distinct (map username (proxies ?db1))" by simp_all
  show ?case
  proof (cases "maxFailedChecks conf \<le> failed_checks r0 + 1")
    case True
    with e f0 i1 Cons.prems(6) have r1: "row_of u ?db1 = None" and ev: "evictions u ?lg1 = 1"
      by (simp_all add: cycle_row_def evicts_def)
    note a = cycles_absent [OF s1 pe r1, of conf]
    from True have "\<not> (failed_checks r0 + int (length (env # envs)) < maxFailedChecks conf)" by simp
    with a ev show ?thesis unfolding cycles_Cons by (simp add: evictions_append)
  next
    case False
    with e f0 i1 Cons.prems(6) have r1: "row_of u ?db1 = Some (bump (clock db) r0)"
      and ev: "evictions u ?lg1 = 0"
      by (simp_all add: cycle_row_def evicts_def)
    have fe: "\<forall>env \<in> set envs. \<forall>r. target r = target (bump (clock db) r0) \<longrightarrow> \<not> probe_ok conf env r"
      using Cons.prems(7) by (simp add: bump_def)
    note ih = Cons.IH [OF s1 h1 Cons.prems(4) pe r1 fe]
    have fc: "failed_checks (bump (clock db) r0) = failed_checks r0 + 1"
      "target (bump (clock db) r0) = target r0" by (simp_all add: bump_def)
    show ?thesis
    proof (cases "envs = []")
      case True
      with ih [unfolded fc] False ev show ?thesis unfolding cycles_Cons
        by (auto simp: evictions_append)
    next
      case ne: False
      have "failed_checks r0 + 1 + int (length envs) = failed_checks r0 + int (length (env # envs))"
        by simp
      with ih [unfolded fc] ne ev show ?thesis unfolding cycles_Cons
        by (auto simp: evictions_append add.assoc)
    qed
  qed
qed

lemma found_row:
  assumes "\<not> closed db" "SQLite_FindByUsername u db = Inr (Some m)"
  obtains r0 where "row_of u db = Some r0" "m = model_of r0" "in_int64 (failed_checks r0)"
  using assms by (auto simp: Find_row_of split: option.splits if_splits)

lemma probe_ok_by_target:
  "target r = target r0 \<Longrightarrow> probe_ok conf env r = probe_ok conf env r0"
  unfolding probe_ok_def by (rule checkSingleProxy_by_Target) (simp add: model_of_def)

lemma example_facts:
  "\<not> closed example_db" "distinct (map username (proxies example_db))"
  "SQLite_FindByUsername ''alice'' example_db = Inr (Some (model_of alice_row))"
  "\<not> closed failing_db" "distinct (map username (proxies failing_db))"
  "SQLite_FindByUsername ''alice'' failing_db = Inr (Some (model_of (alice_row\<lparr>failed_checks := 3\<rparr>)))"
  "headroom example_db" "readable example_db" "headroom failing_db" "readable failing_db"
  "in_int64 (MaxFailedChecks default_conf)" "in_int64 (MaxFailedChecks conf4)"
  by (simp_all add: example_db_def failing_db_def alice_row_def bob_row_def SQLite_FindByUsername_def
      scan_def in_int64_def headroom_def readable_def default_conf_def conf4_def)

lemma env_facts:
  "\<forall>xs. mset (arrival env_down xs) = mset xs"
  "\<forall>xs. mset (arrival env_up xs) = mset xs"
  "\<not> Success (checkSingleProxy conf env_down m)"
  "Success (checkSingleProxy conf env_up m)"
  by (simp_all add: env_down_def env_up_def checkSingleProxy_def Let_def)

lemma loadModels_absent: "u \<notin> Username ` set ms \<Longrightarrow> loadModels ms c u = c u"
  by (induction ms arbitrary: c) auto

lemma absent_everywhere:
  assumes "\<not> closed db" "row_of u db = None"
  shows "SQLite_FindByUsername u db = Inr None
    \<and> (\<forall>ms. SQLite_FindAll db = Inr ms \<longrightarrow> u \<notin> Username ` set ms)
    \<and> GetProxy (NewProxyRouter SQLiteRepository db) u p = (None, False)"
proof -
  have n: "u \<notin> Username ` set ms" if "SQLite_FindAll db = Inr ms" for ms
  proof -
    from that assms(1) have "scan_rows (proxies db) = Inr ms" by (simp add: SQLite_FindAll_def)
    from scan_rows_usernames [OF this] have "Username ` set ms = username ` set (proxies db)"
      by (metis set_map)
    with assms(2) show ?thesis by (simp add: row_of_None)
  qed
  have "cache (NewProxyRouter SQLiteRepository db) u = None"
    using n by (auto simp: NewProxyRouter_def loadCache_def SQLiteRepository_def loadModels_absent
        split: sum.splits)
  then show ?thesis using assms n
    by (simp add: Find_row_of GetProxy_def)
qed

lemma cycles_headroom:
  assumes "\<not> closed db" "distinct (map username (proxies db))"
    and "headroom db" and "in_int64 (MaxFailedChecks conf)"
    and "\<forall>env \<in> set envs. \<forall>xs. mset (arrival env xs) = mset xs"
  shows "\<not> closed (fst (cycles SQLiteRepository conf envs db))
    \<and> distinct (map username (proxies (fst (cycles SQLiteRepository conf envs db))))
    \<and> headroom (fst (cycles SQLiteRepository conf envs db))"
  using assms
proof (induction envs arbitrary: db)
  case Nil
  then show ?case by simp
next
  case (Cons env envs)
  have p: "\<And>xs. mset (arrival env xs) = mset xs" using Cons.prems(5) by simp
  have pe: "\<forall>env \<in> set envs. \<forall>xs. mset (arrival env xs) = mset xs" using Cons.prems(5) by simp
  have rd: "readable db" using Cons.prems(3) by (simp add: headroom_def readable_def)
  note e = Check_effect [OF Cons.prems(1,2) rd p Check_fst_snd, of conf undefined]
  from e have s1: "\<not> closed (fst (snd (Check SQLiteRepository conf env db)))"
    "distinct (map username (proxies (fst (snd (Check SQLiteRepository conf env db)))))" by simp_all
  note h1 = Check_headroom [OF Cons.prems(1,2,3,4) p]
  show ?case unfolding cycles_Cons using Cons.IH [OF s1 h1 Cons.prems(4) pe] by simp
qed

lemma FindAll_headroom:
  assumes "\<not> closed db" "headroom db"
  shows "\<exists>ms. SQLite_FindAll db = Inr ms"
  using assms by (simp add: SQLite_FindAll_def scan_rows_readable headroom_def)

text \<open>
  At the largest 64-bit value the increment turns the counter into a REAL: the cycle that
  counts one more failure cannot read the record back, skips the comparison with the
  maximum and deletes nothing, and every later cycle fails in \<open>FindAll\<close> and leaves the
  store as it is.
\<close>

lemma counter_at_int64_maximum:
  assumes op: "\<not> closed db" and uq: "distinct (map username (proxies db))"
    and rd: "readable db"
    and found: "SQLite_FindByUsername u db = Inr (Some m)"
    and fair: "\<forall>xs. mset (arrival env xs) = mset xs"
    and fails: "\<not> Success (checkSingleProxy conf env m)"
    and top: "FailedChecks m = 2 ^ 63 - 1"
  shows "(\<exists>err. SQLite_FindByUsername u (fst (snd (Check SQLiteRepository conf env db))) = Inl err)
     \<and> evictions u (snd (snd (Check SQLiteRepository conf env db))) = 0
     \<and> (\<exists>err. Check SQLiteRepository conf env' (fst (snd (Check SQLiteRepository conf env db)))
               = (Some err, fst (snd (Check SQLiteRepository conf env db)),
                  [(ERROR, ''failed to fetch proxies'', [])]))"
proof -
  from op found obtain r0 where r0: "row_of u db = Some r0" "m = model_of r0"
    by (rule found_row)
  have fc: "failed_checks r0 = 2 ^ 63 - 1" using top by (simp add: r0 model_of_def)
  let ?c = "Check SQLiteRepository conf env db"
  have one: "\<not> closed (fst (snd ?c))
      \<and> row_of u (fst (snd ?c)) = cycle_row conf (probe_ok conf env r0) (clock db) r0
      \<and> evictions u (snd (snd ?c)) = evicts conf (probe_ok conf env r0) (Some r0)"
    using Check_effect [OF op uq rd _ Check_fst_snd, of env conf u] fair r0 by simp
  have po: "\<not> probe_ok conf env r0" using fails by (simp add: probe_ok_def r0)
  have ro: "row_of u (fst (snd ?c)) = Some (bump (clock db) r0)" and ev: "evictions u (snd (snd ?c)) = 0"
    and nc: "\<not> closed (fst (snd ?c))"
    using one po fc by (simp_all add: cycle_row_def evicts_def in_int64_def)
  have nb: "\<not> in_int64 (failed_checks (bump (clock db) r0))"
    using fc by (simp add: bump_def in_int64_def)
  have a: "\<exists>err. SQLite_FindByUsername u (fst (snd ?c)) = Inl err"
    using nc ro nb by (simp add: Find_row_of)
  have "bump (clock db) r0 \<in> set (proxies (fst (snd ?c)))" using ro row_of_Some by blast
  with nb have "\<not> readable (fst (snd ?c))" by (auto simp: readable_def)
  from Check_unreadable [OF nc this] a ev show ?thesis by blast
qed

text \<open>
  C2. For a record of an open store with unique usernames whose counters can all be
  read, and a configured maximum that fits a Go \<open>int\<close>, in a cycle in which every
  probe's result arrives once: a successful probe leaves its counter at 0 whatever it was;
  a failed probe of a record whose counter is below the largest 64-bit value leaves it one
  higher, unless that value is at or beyond the maximum, in which case the record is
  deleted and one eviction is logged. When every counter of the store is below the largest
  64-bit value, after N consecutive failed cycles from counter 0 the counter is N as long
  as N is below the maximum; from the cycle that reaches the maximum on the record is gone
  and exactly one eviction has been logged, however many cycles follow. The maximum is 5
  when the configured value is 0.
\<close>

theorem failed_checks_counter:
  assumes op: "\<not> closed db" and uq: "distinct (map username (proxies db))"
    and rd: "readable db" and mx: "in_int64 (MaxFailedChecks conf)"
    and found: "SQLite_FindByUsername u db = Inr (Some m)"
  shows "((\<forall>xs. mset (arrival env xs) = mset xs) \<and> Success (checkSingleProxy conf env m) \<longrightarrow>
           (\<exists>m'. SQLite_FindByUsername u (fst (snd (Check SQLiteRepository conf env db))) = Inr (Some m')
                 \<and> FailedChecks m' = 0)
           \<and> evictions u (snd (snd (Check SQLiteRepository conf env db))) = 0)
    \<and> ((\<forall>xs. mset (arrival env xs) = mset xs) \<and> \<not> Success (checkSingleProxy conf env m)
          \<and> FailedChecks m < 2 ^ 63 - 1 \<longrightarrow>
           (if FailedChecks m + 1 < maxFailedChecks conf
            then (\<exists>m'. SQLite_FindByUsername u (fst (snd (Check SQLiteRepository conf env db))) = Inr (Some m')
                       \<and> FailedChecks m' = FailedChecks m + 1)
                 \<and> evictions u (snd (snd (Check SQLiteRepository conf env db))) = 0
            else SQLite_FindByUsername u (fst (snd (Check SQLiteRepository conf env db))) = Inr None
                 \<and> evictions u (snd (snd (Check SQLiteRepository conf env db))) = 1))
    \<and> ((\<forall>e \<in> set envs. (\<forall>xs. mset (arrival e xs) = mset xs) \<and> \<not> Success (checkSingleProxy conf e m))
          \<and> FailedChecks m = 0 \<and> headroom db \<longrightarrow>
           (if envs = [] \<or> int (length envs) < maxFailedChecks conf
            then (\<exists>m'. SQLite_FindByUsername u (fst (cycles SQLiteRepository conf envs db)) = Inr (Some m')
                       \<and> FailedChecks m' = int (length envs))
                 \<and> evictions u (snd (cycles SQLiteRepository conf envs db)) = 0
            else SQLite_FindByUsername u (fst (cycles SQLiteRepository conf envs db)) = Inr None
                 \<and> evictions u (snd (cycles SQLiteRepository conf envs db)) = 1))
    \<and> maxFailedChecks conf = (if MaxFailedChecks conf = 0 then 5 else MaxFailedChecks conf)"
proof -
  from op found obtain r0 where r0: "row_of u db = Some r0" "m = model_of r0"
    and i0: "in_int64 (failed_checks r0)"
    by (rule found_row)
  have fc: "FailedChecks m = failed_checks r0" by (simp add: r0 model_of_def)
  let ?c = "Check SQLiteRepository conf env db"
  have one: "\<not> closed (fst (snd ?c))
      \<and> row_of u (fst (snd ?c)) = cycle_row conf (probe_ok conf env r0) (clock db) r0
      \<and> evictions u (snd (snd ?c)) = evicts conf (probe_ok conf env r0) (Some r0)"
    if "\<forall>xs. mset (arrival env xs) = mset xs"
    using Check_effect [OF op uq rd _ Check_fst_snd, of env conf u] that r0 by simp
  have A: "(\<exists>m'. SQLite_FindByUsername u (fst (snd ?c)) = Inr (Some m') \<and> FailedChecks m' = 0)
           \<and> evictions u (snd (snd ?c)) = 0"
    if "\<forall>xs. mset (arrival env xs) = mset xs" "Success (checkSingleProxy conf env m)"
    using one [OF that(1)] that(2)
    by (simp add: Find_row_of cycle_row_def evicts_def probe_ok_def r0 reset_def model_of_def
        in_int64_def)
  have B: "(if FailedChecks m + 1 < maxFailedChecks conf
            then (\<exists>m'. SQLite_FindByUsername u (fst (snd ?c)) = Inr (Some m')
                       \<and> FailedChecks m' = FailedChecks m + 1)
                 \<and> evictions u (snd (snd ?c)) = 0
            else SQLite_FindByUsername u (fst (snd ?c)) = Inr None
                 \<and> evictions u (snd (snd ?c)) = 1)"
    if "\<forall>xs. mset (arrival env xs) = mset xs" "\<not> Success (checkSingleProxy conf env m)"
      "FailedChecks m < 2 ^ 63 - 1"
  proof -
    have i1: "in_int64 (failed_checks r0 + 1)" using that(3) i0 fc by (simp add: in_int64_def)
    have po: "\<not> probe_ok conf env r0" using that(2) by (simp add: probe_ok_def r0)
    show ?thesis
      using one [OF that(1)] po i1
      by (simp add: Find_row_of cycle_row_def evicts_def fc bump_def model_of_def)
  qed
  let ?d = "cycles SQLiteRepository conf envs db"
  have C: "(if envs = [] \<or> int (length envs) < maxFailedChecks conf
            then (\<exists>m'. SQLite_FindByUsername u (fst ?d) = Inr (Some m')
                       \<and> FailedChecks m' = int (length envs))
                 \<and> evictions u (snd ?d) = 0
            else SQLite_FindByUsername u (fst ?d) = Inr None
                 \<and> evictions u (snd ?d) = 1)"
    if h: "\<forall>e \<in> set envs. (\<forall>xs. mset (arrival e xs) = mset xs) \<and> \<not> Success (checkSingleProxy conf e m)"
      and z: "FailedChecks m = 0" and hr: "headroom db"
  proof -
    have p: "\<forall>env \<in> set envs. \<forall>xs. mset (arrival env xs) = mset xs" using h by blast
    have f: "\<forall>env \<in> set envs. \<forall>r. target r = target r0 \<longrightarrow> \<not> probe_ok conf env r"
    proof (intro ballI allI impI)
      fix env and r :: row assume e: "env \<in> set envs" and t: "target r = target r0"
      from h e have "\<not> probe_ok conf env r0" by (simp add: probe_ok_def r0)
      with probe_ok_by_target [OF t] show "\<not> probe_ok conf env r" by simp
    qed
    note cf = cycles_failing [OF op uq hr mx p r0(1) f]
    note ch = cycles_headroom [OF op uq hr mx p]
    from z fc have z0: "failed_checks r0 = 0" by simp
    have rr: "in_int64 (failed_checks r)" if "row_of u (fst ?d) = Some r" for r
      using ch row_of_Some [OF that] by (simp add: headroom_def)
    show ?thesis
      using cf rr unfolding z0 by (auto simp: Find_row_of model_of_def)
  qed
  show ?thesis using A B C by (simp add: maxFailedChecks_def)
qed

theorem failed_checks_counter_witness:
  "(\<exists>m'. SQLite_FindByUsername ''alice''
            (fst (snd (Check SQLiteRepository default_conf env_up failing_db))) = Inr (Some m')
         \<and> FailedChecks m' = 0)
   \<and> (\<exists>m'. SQLite_FindByUsername ''alice''
            (fst (snd (Check SQLiteRepository default_conf env_down failing_db))) = Inr (Some m')
         \<and> FailedChecks m' = 4)
   \<and> (\<exists>m'. SQLite_FindByUsername ''alice''
            (fst (cycles SQLiteRepository default_conf (replicate 4 env_down) example_db)) = Inr (Some m')
         \<and> FailedChecks m' = 4)
   \<and> evictions ''alice'' (snd (cycles SQLiteRepository default_conf (replicate 4 env_down) example_db)) = 0
   \<and> SQLite_FindByUsername ''alice''
        (fst (cycles SQLiteRepository default_conf (replicate 5 env_down) example_db)) = Inr None
   \<and> evictions ''alice'' (snd (cycles SQLiteRepository default_conf (replicate 5 env_down) example_db)) = 1
   \<and> evictions ''alice'' (snd (cycles SQLiteRepository default_conf (replicate 9 env_down) example_db)) = 1
   \<and> maxFailedChecks default_conf = 5"
proof -
  have mx: "maxFailedChecks default_conf = 5"
    by (simp add: maxFailedChecks_def default_conf_def)
  have z: "FailedChecks (model_of alice_row) = 0"
    "FailedChecks (model_of (alice_row\<lparr>failed_checks := 3\<rparr>)) = 3"
    by (simp_all add: model_of_def alice_row_def)
  note t1 = failed_checks_counter [OF example_facts(4,5,10,11,6), of env_up "[]"]
  note t2 = failed_checks_counter [OF example_facts(4,5,10,11,6), of env_down "[]"]
  note t4 = failed_checks_counter [OF example_facts(1,2,8,11,3), of env_down "replicate 4 env_down"]
  note t5 = failed_checks_counter [OF example_facts(1,2,8,11,3), of env_down "replicate 5 env_down"]
  note t9 = failed_checks_counter [OF example_facts(1,2,8,11,3), of env_down "replicate 9 env_down"]
  have a: "\<exists>m'. SQLite_FindByUsername ''alice''
            (fst (snd (Check SQLiteRepository default_conf env_up failing_db))) = Inr (Some m')
         \<and> FailedChecks m' = 0"
    using t1 env_facts by blast
  have b: "\<exists>m'. SQLite_FindByUsername ''alice''
            (fst (snd (Check SQLiteRepository default_conf env_down failing_db))) = Inr (Some m')
         \<and> FailedChecks m' = 4"
    using t2 env_facts(1,3) by (simp add: mx z)
  have c: "(\<exists>m'. SQLite_FindByUsername ''alice''
            (fst (cycles SQLiteRepository default_conf (replicate 4 env_down) example_db)) = Inr (Some m')
         \<and> FailedChecks m' = 4)
     \<and> evictions ''alice'' (snd (cycles SQLiteRepository default_conf (replicate 4 env_down) example_db)) = 0"
    using t4 env_facts(1,3) example_facts(7) by (simp add: mx z)
  have d: "SQLite_FindByUsername ''alice''
        (fst (cycles SQLiteRepository default_conf (replicate 5 env_down) example_db)) = Inr None
   \<and> evictions ''alice'' (snd (cycles SQLiteRepository default_conf (replicate 5 env_down) example_db)) = 1"
    using t5 env_facts(1,3) example_facts(7) by (simp add: mx z)
  have e: "evictions ''alice'' (snd (cycles SQLiteRepository default_conf (replicate 9 env_down) example_db)) = 1"
    using t9 env_facts(1,3) example_facts(7) by (simp add: mx z)
  show ?thesis using a b c d e mx by blast
qed

text \<open>
  C1, as the claim states it, fails: in the spec's scenario (one record, default threshold,
  five failed cycles) the record is gone from the store, but the router still returns it
  from \<open>GetProxy\<close> and lists it in \<open>GetAllProxies\<close>.
\<close>

theorem evicted_record_stays_in_table:
  "SQLite_FindByUsername ''alice''
      (store (ticks default_conf (replicate 5 env_down) (Run_start example_db))) = Inr None
   \<and> GetProxy (router (ticks default_conf (replicate 5 env_down) (Run_start example_db)))
        ''alice'' ''secret'' = (Some alice_config, True)
   \<and> alice_config \<in> GetAllProxies (router (ticks default_conf (replicate 5 env_down) (Run_start example_db)))"
proof -
  have f: "\<forall>env \<in> set (replicate 5 env_down). \<forall>r. target r = target alice_row \<longrightarrow> \<not> probe_ok default_conf env r"
    using env_facts(3) by (simp add: probe_ok_def)
  have p: "\<forall>env \<in> set (replicate 5 env_down). \<forall>xs. mset (arrival env xs) = mset xs"
    using env_facts(1) by simp
  have r: "row_of ''alice'' example_db = Some alice_row"
    by (simp add: row_of_def example_db_def alice_row_def)
  have mx: "maxFailedChecks default_conf = 5"
    by (simp add: maxFailedChecks_def default_conf_def)
  have z: "failed_checks alice_row = 0" by (simp add: alice_row_def)
  from cycles_failing [OF example_facts(1,2,7,11) p r f]
  have "\<not> closed (fst (cycles SQLiteRepository default_conf (replicate 5 env_down) example_db))"
    "row_of ''alice'' (fst (cycles SQLiteRepository default_conf (replicate 5 env_down) example_db)) = None"
    by (simp_all add: mx z)
  then have s: "SQLite_FindByUsername ''alice''
      (fst (cycles SQLiteRepository default_conf (replicate 5 env_down) example_db)) = Inr None"
    by (simp add: Find_row_of)
  have g: "GetProxy example_router ''alice'' ''secret'' = (Some alice_config, True)"
    by (simp add: GetProxy_def example_router_def alice_config_def)
  have l: "alice_config \<in> GetAllProxies example_router"
    by (simp add: GetAllProxies_def example_router_def ran_def)
  show ?thesis using s g l
    by (simp add: ticks_def Run_start_def example_router_loaded)
qed

text \<open>
  C1, amended. The health checker changes the store only. When a probed record of a store
  whose counters can all be read has a counter below the largest 64-bit value and its
  counter after the increment is at or beyond the maximum, the record is deleted from the
  store: \<open>FindByUsername\<close> no longer returns it and no list \<open>FindAll\<close> returns contains
  it, after that cycle and after any later cycles, and a router built from the store
  afterwards does not find it. When every counter of the store is below the largest 64-bit
  value and the configured maximum fits a Go \<open>int\<close>, \<open>FindAll\<close> does return a list at both
  points. The table of the running router is the same after every cycle.
\<close>

theorem checker_mutates_store_only:
  assumes op: "\<not> closed (store a)" and uq: "distinct (map username (proxies (store a)))"
    and rd: "readable (store a)"
    and found: "SQLite_FindByUsername u (store a) = Inr (Some m)"
    and fair: "\<forall>xs. mset (arrival env xs) = mset xs"
    and later: "\<forall>e \<in> set envs. \<forall>xs. mset (arrival e xs) = mset xs"
    and fails: "\<not> Success (checkSingleProxy conf env m)"
    and below: "FailedChecks m < 2 ^ 63 - 1"
    and thr: "maxFailedChecks conf \<le> FailedChecks m + 1"
  shows "SQLite_FindByUsername u (store (tick conf env a)) = Inr None
     \<and> (\<forall>ms. SQLite_FindAll (store (tick conf env a)) = Inr ms \<longrightarrow> u \<notin> Username ` set ms)
     \<and> SQLite_FindByUsername u (store (ticks conf envs (tick conf env a))) = Inr None
     \<and> (\<forall>ms. SQLite_FindAll (store (ticks conf envs (tick conf env a))) = Inr ms
              \<longrightarrow> u \<notin> Username ` set ms)
     \<and> (headroom (store a) \<and> in_int64 (MaxFailedChecks conf) \<longrightarrow>
          (\<exists>ms. SQLite_FindAll (store (tick conf env a)) = Inr ms)
          \<and> (\<exists>ms. SQLite_FindAll (store (ticks conf envs (tick conf env a))) = Inr ms))
     \<and> GetProxy (NewProxyRouter SQLiteRepository (store (ticks conf envs (tick conf env a)))) u p
         = (None, False)
     \<and> router (tick conf env a) = router a
     \<and> router (ticks conf envs (tick conf env a)) = router a"
proof -
  from op found obtain r0 where r0: "row_of u (store a) = Some r0" "m = model_of r0"
    and i0: "in_int64 (failed_checks r0)"
    by (rule found_row)
  have fc: "FailedChecks m = failed_checks r0" by (simp add: r0 model_of_def)
  have i1: "in_int64 (failed_checks r0 + 1)" using below i0 fc by (simp add: in_int64_def)
  have po: "\<not> probe_ok conf env r0" using fails by (simp add: probe_ok_def r0)
  let ?db1 = "fst (snd (Check SQLiteRepository conf env (store a)))"
  have e: "\<not> closed ?db1 \<and> distinct (map username (proxies ?db1)) \<and> row_of u ?db1 = None"
    using Check_effect [OF op uq rd _ Check_fst_snd, of env conf u] fair r0 po thr i1 fc
    by (simp add: cycle_row_def)
  then have e1: "\<not> closed ?db1" "distinct (map username (proxies ?db1))" "row_of u ?db1 = None"
    by simp_all
  note a1 = absent_everywhere [OF e1(1) e1(3), of p]
  let ?db2 = "fst (cycles SQLiteRepository conf envs ?db1)"
  from cycles_absent [OF e1(1,2) later e1(3), of conf]
  have e2: "\<not> closed ?db2" "row_of u ?db2 = None" by simp_all
  note a2 = absent_everywhere [OF e2, of p]
  have h: "(\<exists>ms. SQLite_FindAll ?db1 = Inr ms) \<and> (\<exists>ms. SQLite_FindAll ?db2 = Inr ms)"
    if hr: "headroom (store a)" and mx: "in_int64 (MaxFailedChecks conf)"
  proof -
    have h1: "headroom ?db1" using Check_headroom [OF op uq hr mx] fair by simp
    note h2 = cycles_headroom [OF e1(1,2) h1 mx later]
    from h2 have "\<not> closed ?db2" "headroom ?db2" by simp_all
    from FindAll_headroom [OF e1(1) h1] FindAll_headroom [OF this] show ?thesis by simp
  qed
  show ?thesis using a1 a2 h by (simp add: tick_def ticks_def)
qed

theorem checker_mutates_store_only_witness:
  "SQLite_FindByUsername ''alice'' (store (Run_start failing_db))
      = Inr (Some (model_of (alice_row\<lparr>failed_checks := 3\<rparr>)))
   \<and> SQLite_FindByUsername ''alice'' (store (tick conf4 env_down (Run_start failing_db))) = Inr None
   \<and> (\<exists>ms. SQLite_FindAll (store (tick conf4 env_down (Run_start failing_db))) = Inr ms
           \<and> ''alice'' \<notin> Username ` set ms)
   \<and> SQLite_FindByUsername ''alice''
        (store (ticks conf4 [env_up, env_down] (tick conf4 env_down (Run_start failing_db)))) = Inr None
   \<and> (\<exists>ms. SQLite_FindAll
              (store (ticks conf4 [env_up, env_down] (tick conf4 env_down (Run_start failing_db)))) = Inr ms
           \<and> ''alice'' \<notin> Username ` set ms)
   \<and> GetProxy (NewProxyRouter SQLiteRepository
        (store (ticks conf4 [env_up, env_down] (tick conf4 env_down (Run_start failing_db)))))
        ''alice'' ''secret'' = (None, False)
   \<and> router (ticks conf4 [env_up, env_down] (tick conf4 env_down (Run_start failing_db)))
        = router (Run_start failing_db)"
proof -
  have s: "store (Run_start failing_db) = failing_db" by (simp add: Run_start_def)
  have l: "\<forall>e \<in> set [env_up, env_down]. \<forall>xs. mset (arrival e xs) = mset xs"
    using env_facts(1,2) by simp
  have t: "maxFailedChecks conf4 \<le> FailedChecks (model_of (alice_row\<lparr>failed_checks := 3\<rparr>)) + 1"
    "FailedChecks (model_of (alice_row\<lparr>failed_checks := 3\<rparr>)) < 2 ^ 63 - 1"
    by (simp_all add: maxFailedChecks_def conf4_def model_of_def)
  from checker_mutates_store_only [of "Run_start failing_db" "''alice''"
      "model_of (alice_row\<lparr>failed_checks := 3\<rparr>)" env_down "[env_up, env_down]" conf4 "''secret''",
      unfolded s, OF example_facts(4,5,10,6) env_facts(1) l env_facts(3) t(2,1)]
  show ?thesis using example_facts(6,9,12) by (auto simp: s)
qed

section \<open>The dispatcher: authentication\<close>

lemma Cut_char:
  "Cut [c] s = (if c \<in> set s
                then Some (takeWhile (\<lambda>x. x \<noteq> c) s, tl (dropWhile (\<lambda>x. x \<noteq> c) s))
                else None)"
  by (induction s) auto

lemma SplitN_char_2:
  "SplitN s [c] 2 = (if c \<in> set s
                     then [takeWhile (\<lambda>x. x \<noteq> c) s, tl (dropWhile (\<lambda>x. x \<noteq> c) s)]
                     else [s])"
  by (simp add: numeral_2_eq_2 Cut_char)

lemma split_at_first:
  "c \<in> set s \<Longrightarrow> s = takeWhile (\<lambda>x. x \<noteq> c) s @ [c] @ tl (dropWhile (\<lambda>x. x \<noteq> c) s)"
  by (induction s) auto

lemma first_split_unique:
  "c \<notin> set a \<Longrightarrow> takeWhile (\<lambda>x. x \<noteq> c) (a @ [c] @ b) = a
     \<and> tl (dropWhile (\<lambda>x. x \<noteq> c) (a @ [c] @ b)) = b"
  by (induction a) auto

lemma parseProxyAuth_ok_iff:
  "parseProxyAuth dec h = (u, p, True) \<longleftrightarrow>
     (\<exists>payload. h = ''Basic '' @ payload \<and> dec payload = Some (u @ '':'' @ p) \<and> CHR '':'' \<notin> set u)"
proof
  assume a: "parseProxyAuth dec h = (u, p, True)"
  then have sp: "CHR '' '' \<in> set h" and b: "takeWhile (\<lambda>x. x \<noteq> CHR '' '') h = ''Basic''"
    by (auto simp: parseProxyAuth_def SplitN_char_2 Let_def split: if_splits option.splits)
  define payload where "payload = tl (dropWhile (\<lambda>x. x \<noteq> CHR '' '') h)"
  have h: "h = ''Basic '' @ payload"
    using split_at_first [OF sp] b unfolding payload_def by simp
  from a sp b obtain decoded where d: "dec payload = Some decoded" "CHR '':'' \<in> set decoded"
    "u = takeWhile (\<lambda>x. x \<noteq> CHR '':'') decoded" "p = tl (dropWhile (\<lambda>x. x \<noteq> CHR '':'') decoded)"
    by (auto simp: parseProxyAuth_def SplitN_char_2 Let_def payload_def split: if_splits option.splits)
  have "decoded = u @ '':'' @ p" using split_at_first [OF d(2)] d(3,4) by simp
  moreover have "CHR '':'' \<notin> set u" unfolding d(3) by (auto dest: set_takeWhileD)
  ultimately show "\<exists>payload. h = ''Basic '' @ payload \<and> dec payload = Some (u @ '':'' @ p) \<and> CHR '':'' \<notin> set u"
    using h d(1) by blast
next
  assume "\<exists>payload. h = ''Basic '' @ payload \<and> dec payload = Some (u @ '':'' @ p) \<and> CHR '':'' \<notin> set u"
  then obtain payload where h: "h = ''Basic '' @ payload" and d: "dec payload = Some (u @ '':'' @ p)"
    and n: "CHR '':'' \<notin> set u" by blast
  have s1: "SplitN h '' '' 2 = [''Basic'', payload]"
    unfolding h by (simp add: SplitN_char_2)
  have s2: "SplitN (u @ '':'' @ p) '':'' 2 = [u, p]"
    using first_split_unique [OF n, of p] by (simp add: SplitN_char_2)
  show "parseProxyAuth dec h = (u, p, True)"
    unfolding parseProxyAuth_def s1 Let_def using d s2 by (simp add: h)
qed

lemma parseProxyAuth_failure:
  "parseProxyAuth dec h = ([], [], False) \<or> snd (snd (parseProxyAuth dec h))"
  by (simp add: parseProxyAuth_def Let_def split: option.splits)

lemma decoded_examples:
  "StdEncoding_DecodeString ''YWxpY2U6c2VjcmV0'' = Some (''alice'' @ '':'' @ ''secret'')"
  "StdEncoding_DecodeString ''Ym9iOmE6Yg=='' = Some (''bob'' @ '':'' @ ''a:b'')"
  "StdEncoding_DecodeString ''YWxpY2U6'' = Some (''alice'' @ '':'' @ [])"
  "StdEncoding_DecodeString ''bWFsbG9yeTpndWVzcw=='' = Some (''mallory'' @ '':'' @ ''guess'')"
  "StdEncoding_DecodeString ''bm9jb2xvbg=='' = Some ''nocolon''"
  "StdEncoding_DecodeString ''!!!!'' = None"
  by (simp_all add: StdEncoding_DecodeString_def encodeStd_def byte_def)

lemma handleHTTP_parse_failure:
  "\<not> snd (snd (parseProxyAuth dec (Header_Get (Header r) ''Proxy-Authorization''))) \<Longrightarrow>
     handleHTTP dec env rt w r =
       respond (http_Error (w\<lparr>header := Header_Set ''Proxy-Authenticate'' challenge (header w)\<rparr>)
                  ''Proxy Authentication Required'' 407) []"
  by (auto simp: handleHTTP_def split: prod.splits)

lemma handleHTTP_lookup_failure:
  "parseProxyAuth dec (Header_Get (Header r) ''Proxy-Authorization'') = (u, p, True) \<Longrightarrow>
   \<not> snd (GetProxy rt u p) \<Longrightarrow>
     handleHTTP dec env rt w r =
       respond (http_Error (w\<lparr>header := Header_Set ''Proxy-Authenticate'' challenge (header w)\<rparr>)
                  ''Invalid credentials'' 407) []"
  by (auto simp: handleHTTP_def split: prod.splits)


lemma http_Error_fresh:
  "200 \<le> c \<Longrightarrow> c \<le> 999 \<Longrightarrow> c \<noteq> 204 \<Longrightarrow> c \<noteq> 304 \<Longrightarrow>
   http_Error (NewResponseWriter\<lparr>header := Header_Set ''Proxy-Authenticate'' challenge (header NewResponseWriter)\<rparr>) msg c
     = \<lparr>header = auth_failure_header, interim = [], code = Some c,
        sent_header = auth_failure_header, written = msg @ [CHR 0x0A], crashed = False\<rparr>"
  by (simp add: http_Error_def NewResponseWriter_def Header_Set_def Header_Del_def WriteHeader_def
      Write_def auth_failure_header_def bodyAllowedForStatus_def Let_def)

lemma finishRequest_fixed: "code w \<noteq> None \<Longrightarrow> finishRequest w = w"
  by (simp add: finishRequest_def WriteHeader_def)

lemma respond_fixed:
  "code w \<noteq> None \<Longrightarrow> \<not> crashed w \<Longrightarrow>
   respond w ws = \<lparr>rw = w, upstream = ws, hijacked = False, clientConn = [], spliced = False,
                    panicked = False\<rparr>"
  by (simp add: respond_def finishRequest_fixed)

text \<open>
  C8. For every decoder: \<open>parseProxyAuth\<close> succeeds with \<open>(u, p)\<close> exactly when the value is
  \<open>Basic\<close>, one space and a payload that decodes to \<open>u:p\<close> with no colon in \<open>u\<close>, so the
  split is at the first colon and \<open>p\<close> may be empty or contain colons. Every failure returns
  the same triple: the empty value of a missing header, a first word other than \<open>Basic\<close>,
  a payload the decoder rejects, a decoded payload without a colon. The dispatcher
  answers all of them with the same response.
\<close>

theorem parseProxyAuth_Basic_first_colon:
  "(parseProxyAuth dec h = (u, p, True) \<longleftrightarrow>
      (\<exists>payload. h = ''Basic '' @ payload \<and> dec payload = Some (u @ '':'' @ p) \<and> CHR '':'' \<notin> set u))
   \<and> (parseProxyAuth dec h = ([], [], False) \<or> snd (snd (parseProxyAuth dec h)))
   \<and> parseProxyAuth dec [] = ([], [], False)
   \<and> (takeWhile (\<lambda>c. c \<noteq> CHR '' '') h \<noteq> ''Basic'' \<longrightarrow> parseProxyAuth dec h = ([], [], False))
   \<and> (dec payload = None \<longrightarrow> parseProxyAuth dec (''Basic '' @ payload) = ([], [], False))
   \<and> (dec payload = Some decoded \<and> CHR '':'' \<notin> set decoded \<longrightarrow>
         parseProxyAuth dec (''Basic '' @ payload) = ([], [], False))
   \<and> (map_of (Header r) ''Proxy-Authorization'' = None \<longrightarrow>
         parseProxyAuth dec (Header_Get (Header r) ''Proxy-Authorization'') = ([], [], False))
   \<and> (\<not> snd (snd (parseProxyAuth dec (Header_Get (Header r) ''Proxy-Authorization''))) \<longrightarrow>
         rw (handleHTTP dec env rt NewResponseWriter r)
           = \<lparr>header = auth_failure_header, interim = [], code = Some 407,
              sent_header = auth_failure_header, written = ''Proxy Authentication Required'' @ [CHR 0x0A],
              crashed = False\<rparr>)"
proof -
  have s: "SplitN (''Basic '' @ payload) '' '' 2 = [''Basic'', payload]"
    by (simp add: SplitN_char_2)
  have 4: "parseProxyAuth dec h = ([], [], False)" if "takeWhile (\<lambda>c. c \<noteq> CHR '' '') h \<noteq> ''Basic''"
    using that by (simp add: parseProxyAuth_def SplitN_char_2 Let_def)
  have 5: "parseProxyAuth dec (''Basic '' @ payload) = ([], [], False)" if "dec payload = None"
    using that unfolding parseProxyAuth_def s by simp
  have 6: "parseProxyAuth dec (''Basic '' @ payload) = ([], [], False)"
    if "dec payload = Some decoded \<and> CHR '':'' \<notin> set decoded"
    using that unfolding parseProxyAuth_def s by (simp add: SplitN_char_2)
  have 7: "parseProxyAuth dec (Header_Get (Header r) ''Proxy-Authorization'') = ([], [], False)"
    if "map_of (Header r) ''Proxy-Authorization'' = None"
    using that by (simp add: Header_Get_def parseProxyAuth_def)
  have 8: "rw (handleHTTP dec env rt NewResponseWriter r)
           = \<lparr>header = auth_failure_header, interim = [], code = Some 407,
              sent_header = auth_failure_header, written = ''Proxy Authentication Required'' @ [CHR 0x0A],
              crashed = False\<rparr>"
    if "\<not> snd (snd (parseProxyAuth dec (Header_Get (Header r) ''Proxy-Authorization'')))"
    unfolding handleHTTP_parse_failure [OF that] by (simp add: http_Error_fresh respond_fixed)
  show ?thesis
    using parseProxyAuth_ok_iff [of dec h u p] parseProxyAuth_failure [of dec h] 4 5 6 7 8
    by (simp add: parseProxyAuth_def)
qed

theorem parseProxyAuth_Basic_first_colon_witness:
  "parseProxyAuth StdEncoding_DecodeString ''Basic YWxpY2U6c2VjcmV0'' = (''alice'', ''secret'', True)
   \<and> parseProxyAuth StdEncoding_DecodeString ''Basic Ym9iOmE6Yg=='' = (''bob'', ''a:b'', True)
   \<and> parseProxyAuth StdEncoding_DecodeString ''Basic YWxpY2U6'' = (''alice'', [], True)
   \<and> parseProxyAuth StdEncoding_DecodeString ''Bearer YWxpY2U6c2VjcmV0'' = ([], [], False)
   \<and> parseProxyAuth StdEncoding_DecodeString ''Basic !!!!'' = ([], [], False)
   \<and> parseProxyAuth StdEncoding_DecodeString ''Basic bm9jb2xvbg=='' = ([], [], False)
   \<and> rw (handleHTTP StdEncoding_DecodeString net_refused example_router NewResponseWriter get_request)
        = \<lparr>header = auth_failure_header, interim = [], code = Some 407,
           sent_header = auth_failure_header, written = ''Proxy Authentication Required'' @ [CHR 0x0A],
           crashed = False\<rparr>"
proof -
  note t = parseProxyAuth_Basic_first_colon [where dec = StdEncoding_DecodeString
      and env = net_refused and rt = example_router and r = get_request]
  have a: "parseProxyAuth StdEncoding_DecodeString ''Basic YWxpY2U6c2VjcmV0'' = (''alice'', ''secret'', True)"
    using t [of "''Basic YWxpY2U6c2VjcmV0''" "''alice''" "''secret''"] decoded_examples(1) by auto
  have b: "parseProxyAuth StdEncoding_DecodeString ''Basic Ym9iOmE6Yg=='' = (''bob'', ''a:b'', True)"
    using t [of "''Basic Ym9iOmE6Yg==''" "''bob''" "''a:b''"] decoded_examples(2) by auto
  have c: "parseProxyAuth StdEncoding_DecodeString ''Basic YWxpY2U6'' = (''alice'', [], True)"
    using t [of "''Basic YWxpY2U6''" "''alice''" "[]"] decoded_examples(3) by auto
  have d: "parseProxyAuth StdEncoding_DecodeString ''Bearer YWxpY2U6c2VjcmV0'' = ([], [], False)"
    using t [of "''Bearer YWxpY2U6c2VjcmV0''"] by simp
  have e: "parseProxyAuth StdEncoding_DecodeString ''Basic !!!!'' = ([], [], False)"
    using t [of _ _ _ "''!!!!''"] decoded_examples(6) by simp
  have f: "parseProxyAuth StdEncoding_DecodeString ''Basic bm9jb2xvbg=='' = ([], [], False)"
    using t [of _ _ _ "''bm9jb2xvbg==''" "''nocolon''"] decoded_examples(5) by simp
  have m: "map_of (Header get_request) ''Proxy-Authorization'' = None"
    by (simp add: get_request_def)
  have g: "rw (handleHTTP StdEncoding_DecodeString net_refused example_router NewResponseWriter get_request)
        = \<lparr>header = auth_failure_header, interim = [], code = Some 407,
           sent_header = auth_failure_header, written = ''Proxy Authentication Required'' @ [CHR 0x0A],
           crashed = False\<rparr>"
    using t [of "[]" "[]" "[]" "[]" "[]"] m by simp
  show ?thesis using a b c d e f g by blast
qed

text \<open>
  C3, as the claim states it, fails: a request without credentials and a request with
  well-formed credentials of an unknown user get the same status and headers, but the
  bodies are different texts.
\<close>

theorem auth_failure_bodies_differ:
  "rw (handleHTTP StdEncoding_DecodeString (net_replies upstream_reply) example_router
         NewResponseWriter get_request)
     = \<lparr>header = auth_failure_header, interim = [], code = Some 407,
        sent_header = auth_failure_header, written = ''Proxy Authentication Required'' @ [CHR 0x0A],
        crashed = False\<rparr>
   \<and> rw (handleHTTP StdEncoding_DecodeString (net_replies upstream_reply) example_router
         NewResponseWriter (with_auth ''Basic bWFsbG9yeTpndWVzcw=='' get_request))
     = \<lparr>header = auth_failure_header, interim = [], code = Some 407,
        sent_header = auth_failure_header, written = ''Invalid credentials'' @ [CHR 0x0A],
        crashed = False\<rparr>
   \<and> written (rw (handleHTTP StdEncoding_DecodeString (net_replies upstream_reply) example_router
         NewResponseWriter get_request))
     \<noteq> written (rw (handleHTTP StdEncoding_DecodeString (net_replies upstream_reply) example_router
         NewResponseWriter (with_auth ''Basic bWFsbG9yeTpndWVzcw=='' get_request)))"
proof -
  have p1: "parseProxyAuth StdEncoding_DecodeString (Header_Get (Header get_request) ''Proxy-Authorization'')
      = ([], [], False)"
    by (simp add: get_request_def Header_Get_def parseProxyAuth_def)
  have h: "Header_Get (Header (with_auth ''Basic bWFsbG9yeTpndWVzcw=='' get_request)) ''Proxy-Authorization''
      = ''Basic '' @ ''bWFsbG9yeTpndWVzcw==''"
    by (simp add: with_auth_def Header_Get_def)
  have p2: "parseProxyAuth StdEncoding_DecodeString
       (Header_Get (Header (with_auth ''Basic bWFsbG9yeTpndWVzcw=='' get_request)) ''Proxy-Authorization'')
      = (''mallory'', ''guess'', True)"
    unfolding h parseProxyAuth_ok_iff using decoded_examples(4) by auto
  have g: "\<not> snd (GetProxy example_router ''mallory'' ''guess'')"
    by (simp add: GetProxy_def example_router_def)
  have a: "rw (handleHTTP StdEncoding_DecodeString (net_replies upstream_reply) example_router
         NewResponseWriter get_request)
     = \<lparr>header = auth_failure_header, interim = [], code = Some 407,
        sent_header = auth_failure_header, written = ''Proxy Authentication Required'' @ [CHR 0x0A],
        crashed = False\<rparr>"
    using p1 by (simp add: handleHTTP_parse_failure http_Error_fresh respond_fixed)
  have b: "rw (handleHTTP StdEncoding_DecodeString (net_replies upstream_reply) example_router
         NewResponseWriter (with_auth ''Basic bWFsbG9yeTpndWVzcw=='' get_request))
     = \<lparr>header = auth_failure_header, interim = [], code = Some 407,
        sent_header = auth_failure_header, written = ''Invalid credentials'' @ [CHR 0x0A],
        crashed = False\<rparr>"
    unfolding handleHTTP_lookup_failure [OF p2 g] by (simp add: http_Error_fresh respond_fixed)
  show ?thesis unfolding a b by simp
qed

text \<open>
  C3, amended. Both causes of an authentication failure are answered with status 407 and
  the same headers, among them the \<open>Proxy-Authenticate\<close> challenge, and nothing is sent
  upstream; the body is \<open>Proxy Authentication Required\<close> when the header is missing or
  malformed and \<open>Invalid credentials\<close> when the lookup fails.
\<close>

theorem auth_failures_share_status_and_challenge:
  assumes "parseProxyAuth dec (Header_Get (Header r) ''Proxy-Authorization'') = (u, p, ok)"
  shows "(\<not> ok \<longrightarrow>
            handleHTTP dec env rt NewResponseWriter r
              = respond \<lparr>header = auth_failure_header, interim = [], code = Some 407,
                          sent_header = auth_failure_header, written = ''Proxy Authentication Required'' @ [CHR 0x0A],
                          crashed = False\<rparr> [])
     \<and> (ok \<and> \<not> snd (GetProxy rt u p) \<longrightarrow>
            handleHTTP dec env rt NewResponseWriter r
              = respond \<lparr>header = auth_failure_header, interim = [], code = Some 407,
                          sent_header = auth_failure_header, written = ''Invalid credentials'' @ [CHR 0x0A],
                          crashed = False\<rparr> [])
     \<and> map_of auth_failure_header ''Proxy-Authenticate'' = Some [challenge]"
proof -
  have a: "handleHTTP dec env rt NewResponseWriter r
              = respond \<lparr>header = auth_failure_header, interim = [], code = Some 407,
                          sent_header = auth_failure_header, written = ''Proxy Authentication Required'' @ [CHR 0x0A],
                          crashed = False\<rparr> []"
    if "\<not> ok"
    using that assms by (simp add: handleHTTP_parse_failure http_Error_fresh)
  have b: "handleHTTP dec env rt NewResponseWriter r
              = respond \<lparr>header = auth_failure_header, interim = [], code = Some 407,
                          sent_header = auth_failure_header, written = ''Invalid credentials'' @ [CHR 0x0A],
                          crashed = False\<rparr> []"
    if "ok \<and> \<not> snd (GetProxy rt u p)"
    using that assms handleHTTP_lookup_failure [of dec r u p rt env NewResponseWriter]
    by (simp add: http_Error_fresh)
  show ?thesis using a b by (simp add: auth_failure_header_def)
qed

theorem auth_failures_share_status_and_challenge_witness:
  "handleHTTP StdEncoding_DecodeString (net_replies upstream_reply) example_router
         NewResponseWriter get_request
     = respond \<lparr>header = auth_failure_header, interim = [], code = Some 407,
                 sent_header = auth_failure_header, written = ''Proxy Authentication Required'' @ [CHR 0x0A],
                 crashed = False\<rparr> []
   \<and> handleHTTP StdEncoding_DecodeString (net_replies upstream_reply) example_router
         NewResponseWriter (with_auth ''Basic YWxpY2U6'' get_request)
     = respond \<lparr>header = auth_failure_header, interim = [], code = Some 407,
                 sent_header = auth_failure_header, written = ''Invalid credentials'' @ [CHR 0x0A],
                 crashed = False\<rparr> []"
proof -
  have p1: "parseProxyAuth StdEncoding_DecodeString (Header_Get (Header get_request) ''Proxy-Authorization'')
      = ([], [], False)"
    by (simp add: get_request_def Header_Get_def parseProxyAuth_def)
  have h: "Header_Get (Header (with_auth ''Basic YWxpY2U6'' get_request)) ''Proxy-Authorization''
      = ''Basic '' @ ''YWxpY2U6''"
    by (simp add: with_auth_def Header_Get_def)
  have p2: "parseProxyAuth StdEncoding_DecodeString
       (Header_Get (Header (with_auth ''Basic YWxpY2U6'' get_request)) ''Proxy-Authorization'')
      = (''alice'', [], True)"
    unfolding h parseProxyAuth_ok_iff using decoded_examples(3) by auto
  have g: "\<not> snd (GetProxy example_router ''alice'' [])"
    by (simp add: GetProxy_def example_router_def alice_config_def)
  from auth_failures_share_status_and_challenge [OF p1, of "net_replies upstream_reply" example_router]
    auth_failures_share_status_and_challenge [OF p2, of "net_replies upstream_reply" example_router] g
  show ?thesis by simp
qed

section \<open>The tunnel path\<close>

lemma http_Error_new:
  "c = 101 \<or> (200 \<le> c \<and> c \<le> 999) \<Longrightarrow>
   code (http_Error NewResponseWriter msg c) = Some c
   \<and> written (http_Error NewResponseWriter msg c)
        = (if c = 101 \<or> c = 204 \<or> c = 304 then [] else msg @ [CHR 0x0A])
   \<and> interim (http_Error NewResponseWriter msg c) = []
   \<and> \<not> crashed (http_Error NewResponseWriter msg c)"
  by (auto simp: http_Error_def NewResponseWriter_def WriteHeader_def Write_def
      bodyAllowedForStatus_def Let_def)

lemma respond_new:
  "c = 101 \<or> (200 \<le> c \<and> c \<le> 999) \<Longrightarrow>
   respond (http_Error NewResponseWriter msg c) ws
     = \<lparr>rw = http_Error NewResponseWriter msg c, upstream = ws, hijacked = False, clientConn = [],
        spliced = False, panicked = False\<rparr>"
  using http_Error_new [of c msg] by (simp add: respond_fixed)

text \<open>
  A status code from 100 to 199 other than 101 goes out as an interim response, and the
  message that follows fixes the status at 200. A code below 100 makes \<open>WriteHeader\<close>
  panic: the handler ends there and no response is written.
\<close>

lemma http_Error_outside_final_codes:
  "(100 \<le> c \<and> c \<le> 199 \<and> c \<noteq> 101 \<longrightarrow>
      respond (http_Error NewResponseWriter msg c) ws
        = \<lparr>rw = (http_Error NewResponseWriter msg 200)\<lparr>interim := [c]\<rparr>, upstream = ws,
           hijacked = False, clientConn = [], spliced = False, panicked = False\<rparr>)
   \<and> (c < 100 \<or> 999 < c \<longrightarrow>
      code (rw (respond (http_Error NewResponseWriter msg c) ws)) = None
      \<and> written (rw (respond (http_Error NewResponseWriter msg c) ws)) = []
      \<and> panicked (respond (http_Error NewResponseWriter msg c) ws))"
  by (auto simp: respond_def finishRequest_def http_Error_def NewResponseWriter_def WriteHeader_def
      Write_def bodyAllowedForStatus_def Let_def)

text \<open>
  C6, as the claim states it, fails: an upstream reply of 204, a success of the 200 class,
  does not establish the tunnel; it is answered with status 204 and no body.
\<close>

theorem connect_204_is_not_tunnelled:
  "hijacked (handleConnect (net_replies no_content) NewResponseWriter connect_request alice_config) = False
   \<and> clientConn (handleConnect (net_replies no_content) NewResponseWriter connect_request alice_config) = []
   \<and> spliced (handleConnect (net_replies no_content) NewResponseWriter connect_request alice_config) = False
   \<and> code (rw (handleConnect (net_replies no_content) NewResponseWriter connect_request alice_config)) = Some 204
   \<and> written (rw (handleConnect (net_replies no_content) NewResponseWriter connect_request alice_config)) = []"
  by (simp add: handleConnect_def net_replies_def no_content_def respond_new http_Error_new)

text \<open>
  C6, amended. A failed dial is answered with 503 and the client connection is not
  hijacked. A reply whose status code is not exactly 200 never leads to a hijack; when
  that code is 101 or from 200 to 999 the answer has the upstream's status code, and its
  body is the upstream's status text after \<open>Proxy returned: \<close>, except under 101, 204 and
  304, which carry no body. A reply of exactly 200 establishes the tunnel when the hijack
  succeeds: the connection is hijacked and \<open>HTTP/1.1 200 Connection Established\<close> is
  written on it; when the hijack fails the answer is 500 or 503. The connection is
  hijacked in no other case.
\<close>

theorem connect_tunnel_only_on_200:
  "(DialTimeout env (Target config) = Some err \<longrightarrow>
      code (rw (handleConnect env NewResponseWriter r config)) = Some 503
      \<and> written (rw (handleConnect env NewResponseWriter r config))
           = ''Cannot connect to proxy: '' @ err @ [CHR 0x0A]
      \<and> upstream (handleConnect env NewResponseWriter r config) = []
      \<and> \<not> hijacked (handleConnect env NewResponseWriter r config)
      \<and> \<not> spliced (handleConnect env NewResponseWriter r config))
   \<and> (DialTimeout env (Target config) = None
        \<and> exchange env (Target config) (Raw (connectReq r)) = Reply resp \<and> StatusCode resp \<noteq> 200 \<longrightarrow>
      \<not> hijacked (handleConnect env NewResponseWriter r config)
      \<and> \<not> spliced (handleConnect env NewResponseWriter r config)
      \<and> clientConn (handleConnect env NewResponseWriter r config) = [])
   \<and> (DialTimeout env (Target config) = None
        \<and> exchange env (Target config) (Raw (connectReq r)) = Reply resp \<and> StatusCode resp \<noteq> 200
        \<and> (StatusCode resp = 101 \<or> (200 \<le> StatusCode resp \<and> StatusCode resp \<le> 999)) \<longrightarrow>
      code (rw (handleConnect env NewResponseWriter r config)) = Some (StatusCode resp)
      \<and> written (rw (handleConnect env NewResponseWriter r config))
           = (if StatusCode resp = 101 \<or> StatusCode resp = 204 \<or> StatusCode resp = 304 then []
              else ''Proxy returned: '' @ Status resp @ [CHR 0x0A])
      \<and> interim (rw (handleConnect env NewResponseWriter r config)) = []
      \<and> \<not> panicked (handleConnect env NewResponseWriter r config))
   \<and> (DialTimeout env (Target config) = None
        \<and> exchange env (Target config) (Raw (connectReq r)) = Reply resp \<and> StatusCode resp = 200
        \<and> Hijack env = Hijacked \<longrightarrow>
      hijacked (handleConnect env NewResponseWriter r config)
      \<and> clientConn (handleConnect env NewResponseWriter r config)
           = ''HTTP/1.1 200 Connection Established'' @ CRLF @ CRLF
      \<and> spliced (handleConnect env NewResponseWriter r config)
      \<and> rw (handleConnect env NewResponseWriter r config) = NewResponseWriter)
   \<and> (DialTimeout env (Target config) = None
        \<and> exchange env (Target config) (Raw (connectReq r)) = Reply resp \<and> StatusCode resp = 200
        \<and> Hijack env \<noteq> Hijacked \<longrightarrow>
      \<not> hijacked (handleConnect env NewResponseWriter r config)
      \<and> \<not> spliced (handleConnect env NewResponseWriter r config)
      \<and> code (rw (handleConnect env NewResponseWriter r config))
           = Some (if Hijack env = NotHijacker then 500 else 503))
   \<and> (hijacked (handleConnect env NewResponseWriter r config) \<longleftrightarrow>
        DialTimeout env (Target config) = None
        \<and> (\<exists>resp. exchange env (Target config) (Raw (connectReq r)) = Reply resp \<and> StatusCode resp = 200)
        \<and> Hijack env = Hijacked)"
proof -
  let ?out = "handleConnect env NewResponseWriter r config"
  have A: "code (rw ?out) = Some 503
      \<and> written (rw ?out) = ''Cannot connect to proxy: '' @ err @ [CHR 0x0A]
      \<and> upstream ?out = [] \<and> \<not> hijacked ?out \<and> \<not> spliced ?out"
    if "DialTimeout env (Target config) = Some err"
    using that by (simp add: handleConnect_def respond_new http_Error_new)
  have B: "\<not> hijacked ?out \<and> \<not> spliced ?out \<and> clientConn ?out = []"
    if "DialTimeout env (Target config) = None
        \<and> exchange env (Target config) (Raw (connectReq r)) = Reply resp \<and> StatusCode resp \<noteq> 200"
    using that by (simp add: handleConnect_def respond_def)
  have C: "code (rw ?out) = Some (StatusCode resp)
      \<and> written (rw ?out)
           = (if StatusCode resp = 101 \<or> StatusCode resp = 204 \<or> StatusCode resp = 304 then []
              else ''Proxy returned: '' @ Status resp @ [CHR 0x0A])
      \<and> interim (rw ?out) = [] \<and> \<not> panicked ?out"
    if h: "DialTimeout env (Target config) = None
        \<and> exchange env (Target config) (Raw (connectReq r)) = Reply resp \<and> StatusCode resp \<noteq> 200
        \<and> (StatusCode resp = 101 \<or> (200 \<le> StatusCode resp \<and> StatusCode resp \<le> 999))"
  proof -
    from h have f: "StatusCode resp = 101 \<or> (200 \<le> StatusCode resp \<and> StatusCode resp \<le> 999)"
      by simp
    have o: "?out = respond (http_Error NewResponseWriter (''Proxy returned: '' @ Status resp)
                 (StatusCode resp)) [Raw (connectReq r)]"
      using h by (simp add: handleConnect_def)
    show ?thesis unfolding o respond_new [OF f]
      using http_Error_new [OF f, of "''Proxy returned: '' @ Status resp"] by simp
  qed
  have D: "hijacked ?out
      \<and> clientConn ?out = ''HTTP/1.1 200 Connection Established'' @ CRLF @ CRLF
      \<and> spliced ?out \<and> rw ?out = NewResponseWriter"
    if "DialTimeout env (Target config) = None
        \<and> exchange env (Target config) (Raw (connectReq r)) = Reply resp \<and> StatusCode resp = 200
        \<and> Hijack env = Hijacked"
    using that by (simp add: handleConnect_def)
  have E: "\<not> hijacked ?out \<and> \<not> spliced ?out
      \<and> code (rw ?out) = Some (if Hijack env = NotHijacker then 500 else 503)"
    if "DialTimeout env (Target config) = None
        \<and> exchange env (Target config) (Raw (connectReq r)) = Reply resp \<and> StatusCode resp = 200
        \<and> Hijack env \<noteq> Hijacked"
    using that by (cases "Hijack env") (simp_all add: handleConnect_def respond_new http_Error_new)
  have F: "hijacked ?out \<longleftrightarrow>
        DialTimeout env (Target config) = None
        \<and> (\<exists>resp. exchange env (Target config) (Raw (connectReq r)) = Reply resp \<and> StatusCode resp = 200)
        \<and> Hijack env = Hijacked"
    by (auto simp: handleConnect_def respond_def split: option.splits exchange.splits hijack.splits)
  show ?thesis using A B C D E F by blast
qed

theorem connect_tunnel_only_on_200_witness:
  "code (rw (handleConnect net_refused NewResponseWriter connect_request alice_config)) = Some 503
   \<and> hijacked (handleConnect net_refused NewResponseWriter connect_request alice_config) = False
   \<and> code (rw (handleConnect (net_replies upstream_reply) NewResponseWriter connect_request alice_config))
       = Some 404
   \<and> written (rw (handleConnect (net_replies upstream_reply) NewResponseWriter connect_request alice_config))
       = ''Proxy returned: 404 Not Found'' @ [CHR 0x0A]
   \<and> hijacked (handleConnect (net_replies upstream_reply) NewResponseWriter connect_request alice_config) = False
   \<and> hijacked (handleConnect (net_replies established) NewResponseWriter connect_request alice_config) = True
   \<and> clientConn (handleConnect (net_replies established) NewResponseWriter connect_request alice_config)
       = ''HTTP/1.1 200 Connection Established'' @ CRLF @ CRLF
   \<and> code (rw (handleConnect ((net_replies established)\<lparr>Hijack := NotHijacker\<rparr>)
          NewResponseWriter connect_request alice_config)) = Some 500"
proof -
  have d: "DialTimeout net_refused (Target alice_config) = Some ''dial tcp: connection refused''"
    by (simp add: net_refused_def)
  have e: "DialTimeout (net_replies resp) (Target alice_config) = None"
    "exchange (net_replies resp) (Target alice_config) (Raw (connectReq connect_request)) = Reply resp"
    "Hijack (net_replies resp) = Hijacked" for resp
    by (simp_all add: net_replies_def)
  have s: "StatusCode upstream_reply = 404" "StatusCode established = 200"
    "Status upstream_reply = ''404 Not Found''"
    by (simp_all add: upstream_reply_def established_def)
  note t1 = connect_tunnel_only_on_200 [of net_refused alice_config "''dial tcp: connection refused''"
      connect_request upstream_reply]
  note t2 = connect_tunnel_only_on_200 [of "net_replies upstream_reply" alice_config "[]"
      connect_request upstream_reply]
  note t3 = connect_tunnel_only_on_200 [of "net_replies established" alice_config "[]"
      connect_request established]
  note t4 = connect_tunnel_only_on_200 [of "(net_replies established)\<lparr>Hijack := NotHijacker\<rparr>"
      alice_config "[]" connect_request established]
  have a: "code (rw (handleConnect net_refused NewResponseWriter connect_request alice_config)) = Some 503
   \<and> hijacked (handleConnect net_refused NewResponseWriter connect_request alice_config) = False"
    using t1 d by simp
  have b: "code (rw (handleConnect (net_replies upstream_reply) NewResponseWriter connect_request alice_config))
       = Some 404
   \<and> written (rw (handleConnect (net_replies upstream_reply) NewResponseWriter connect_request alice_config))
       = ''Proxy returned: 404 Not Found'' @ [CHR 0x0A]
   \<and> hijacked (handleConnect (net_replies upstream_reply) NewResponseWriter connect_request alice_config) = False"
    using t2 e s by simp
  have c: "hijacked (handleConnect (net_replies established) NewResponseWriter connect_request alice_config) = True
   \<and> clientConn (handleConnect (net_replies established) NewResponseWriter connect_request alice_config)
       = ''HTTP/1.1 200 Connection Established'' @ CRLF @ CRLF"
    using t3 e s by simp
  have f: "code (rw (handleConnect ((net_replies established)\<lparr>Hijack := NotHijacker\<rparr>)
          NewResponseWriter connect_request alice_config)) = Some 500"
    using t4 s by (simp add: net_replies_def)
  show ?thesis using a b c f by blast
qed

lemma tunnel_fold:
  "handler_returned (foldl tunnel_step t evs) = (handler_returned t \<or> (handler_copying t \<and> TargetToClientDone \<in> set evs))
   \<and> clientConn_closed (foldl tunnel_step t evs) = (clientConn_closed t \<or> (handler_copying t \<and> TargetToClientDone \<in> set evs))
   \<and> targetConn_closed (foldl tunnel_step t evs) = (targetConn_closed t \<or> (handler_copying t \<and> TargetToClientDone \<in> set evs))
   \<and> handler_copying (foldl tunnel_step t evs) = (handler_copying t \<and> TargetToClientDone \<notin> set evs)
   \<and> goroutine_copying (foldl tunnel_step t evs) = (goroutine_copying t \<and> ClientToTargetDone \<notin> set evs)"
proof (induction evs arbitrary: t)
  case Nil
  then show ?case by simp
next
  case (Cons e evs)
  show ?case using Cons.IH [of "tunnel_step t e"] by (cases e) auto
qed

text \<open>
  C9, as the claim states it, fails: when only the client-to-upstream copy has ended,
  neither connection is closed and the handler has not returned; and the handler returns
  after its own copy while the goroutine's copy is still running.
\<close>

theorem client_side_end_closes_nothing:
  "clientConn_closed (tunnel_run [ClientToTargetDone]) = False
   \<and> targetConn_closed (tunnel_run [ClientToTargetDone]) = False
   \<and> handler_returned (tunnel_run [ClientToTargetDone]) = False
   \<and> handler_returned (tunnel_run [TargetToClientDone]) = True
   \<and> goroutine_copying (tunnel_run [TargetToClientDone]) = True"
  by (simp add: tunnel_run_def splice_def)

text \<open>
  C9, amended. The tunnel ends when the upstream-to-client copy ends: the handler has
  returned, and both connections are closed, exactly when that copy has ended. The end of
  the client-to-upstream copy, which runs in a goroutine that is not waited for, closes
  nothing.
\<close>

theorem tunnel_ends_with_handler_copy:
  "(handler_returned (tunnel_run evs) \<longleftrightarrow> TargetToClientDone \<in> set evs)
   \<and> (clientConn_closed (tunnel_run evs) \<longleftrightarrow> TargetToClientDone \<in> set evs)
   \<and> (targetConn_closed (tunnel_run evs) \<longleftrightarrow> TargetToClientDone \<in> set evs)
   \<and> (goroutine_copying (tunnel_run evs) \<longleftrightarrow> ClientToTargetDone \<notin> set evs)"
  using tunnel_fold [of splice evs] by (simp add: tunnel_run_def splice_def)

section \<open>The plain-forward path\<close>










end
